theory Spec2Isabelle
  imports Complex_Main
begin

section \<open>Conventions of the embedding\<close>

text \<open>
  The two scripts \<^verbatim>\<open>scripts/forecast_power.py\<close> and
  \<^verbatim>\<open>scripts/forecast_multivariate.py\<close> are embedded function by function.
  Python floats are idealised as \<^typ>\<open>real\<close>; a value that may be absent
  (\<^verbatim>\<open>None\<close>) or not-a-number (\<^verbatim>\<open>NaN\<close>) is an \<^typ>\<open>real option\<close>
  with \<^term>\<open>None\<close> for the absent value. Calendar dates are day numbers
  (\<^typ>\<open>int\<close>), so that adding \<^verbatim>\<open>pd.Timedelta(days=k)\<close> is adding \<open>k\<close>.
  Exceptions are values of \<open>py_error\<close>, returned on the left of a sum.
  The third-party libraries (statsmodels, pmdarima, Prophet, scikit-learn, the NumPy
  random generator) are parameters of the functions that call them.
\<close>

datatype py_error = RuntimeError | ValueError | TypeError | IndexError | KeyError | SystemExit

subsection \<open>NumPy and pandas reductions\<close>

text \<open>\<^verbatim>\<open>mean()\<close> of a column: NaN on an empty column.\<close>

definition np_mean :: "real list \<Rightarrow> real option" where
  "np_mean xs = (if xs = [] then None else Some (sum_list xs / real (length xs)))"

text \<open>\<^verbatim>\<open>float(series.mean())\<close> where the caller has checked that the series is not empty.\<close>

definition series_mean :: "real list \<Rightarrow> real" where
  "series_mean xs = sum_list xs / real (length xs)"

text \<open>\<^verbatim>\<open>np.var(xs, ddof=1)\<close>, called on at least two values.\<close>

definition var_ddof1 :: "real list \<Rightarrow> real" where
  "var_ddof1 xs = (let m = series_mean xs in sum_list (map (\<lambda>x. (x - m)\<^sup>2) xs) / (real (length xs) - 1))"

text \<open>\<^verbatim>\<open>series.tail(n)\<close>: the last \<open>n\<close> entries, all of them when there are fewer.\<close>

definition tail :: "nat \<Rightarrow> 'a list \<Rightarrow> 'a list" where
  "tail n xs = drop (length xs - n) xs"

text \<open>\<^verbatim>\<open>np.median\<close> and \<^verbatim>\<open>np.percentile\<close> (linear interpolation between the two
  nearest ranks) of a non-empty array.\<close>

definition np_median :: "real list \<Rightarrow> real" where
  "np_median xs = (let s = sort xs; n = length s in
     if odd n then s ! (n div 2) else (s ! (n div 2 - 1) + s ! (n div 2)) / 2)"

definition np_percentile :: "real list \<Rightarrow> real \<Rightarrow> real" where
  "np_percentile xs q = (let s = sort xs; n = length s;
       pos = q / 100 * (real n - 1);
       lo = nat \<lfloor>pos\<rfloor>;
       hi = min (lo + 1) (n - 1);
       frac = pos - real lo
     in s ! lo + frac * (s ! hi - s ! lo))"

text \<open>Python's built-in \<^verbatim>\<open>round\<close> on a float: to the nearest integer, a tie to the
  even neighbour.\<close>

definition py_round :: "real \<Rightarrow> int" where
  "py_round x = (let f = \<lfloor>x\<rfloor>; d = x - of_int f in
     if d < 1 / 2 then f else if 1 / 2 < d then f + 1 else if even f then f else f + 1)"

section \<open>Risk scorer (forecast-power script, compact summary)\<close>

text \<open>\<^verbatim>\<open>rain_score(mm)\<close>; the argument is \<^verbatim>\<open>None\<close> when no precipitation value exists.\<close>

definition rain_score :: "real option \<Rightarrow> real" where
  "rain_score mm = (case mm of
       None \<Rightarrow> 0
     | Some m \<Rightarrow>
         if m \<le> 0 then 0
         else if m < 1 then 15
         else if m < 5 then 40 + (m - 1) / 4 * 30
         else if m < 20 then 70 + (m - 5) / 15 * 30
         else 100)"

text \<open>\<^verbatim>\<open>score = int(round(rain_score(rain_mm_for_risk)))\<close>\<close>

definition score :: "real option \<Rightarrow> int" where
  "score mm = py_round (rain_score mm)"

definition risk_label :: "int \<Rightarrow> string" where
  "risk_label s = (if s \<ge> 70 then ''High Risk'' else if s \<ge> 40 then ''Medium Risk'' else ''Low Risk'')"

section \<open>Climatology statistics and shrinkage blending (forecast-power script, compact summary)\<close>

text \<open>
  The compact summary of \<^verbatim>\<open>main\<close> works on the precipitation frame \<^verbatim>\<open>df_prec\<close>
  (\<^verbatim>\<open>None\<close> when every fetch failed, otherwise its non-missing values in date order,
  after \<^verbatim>\<open>dropna\<close>) and on \<^verbatim>\<open>prec_sample\<close>, the array returned by
  \<^verbatim>\<open>sample_day_window\<close>.
\<close>

record hist_stats =
  count :: nat
  median :: real
  p25 :: real
  p75 :: real
  top5 :: "real list"

definition hist_stats_from_array :: "real list \<Rightarrow> hist_stats option" where
  "hist_stats_from_array arr =
     (if length arr = 0 then None
      else Some \<lparr>count = length arr, median = np_median arr,
                 p25 = np_percentile arr 25, p75 = np_percentile arr 75,
                 top5 = take 5 (rev (sort arr))\<rparr>)"

definition mean_or_nan :: "real list \<Rightarrow> real option" where
  "mean_or_nan arr = (if length arr = 0 then None else Some (series_mean arr))"

text \<open>\<^verbatim>\<open>hist_avg_prec\<close>: the mean of the day-window sample, else the mean of the whole
  series, else \<^verbatim>\<open>None\<close>.\<close>

definition hist_avg :: "real list \<Rightarrow> real list option \<Rightarrow> real option" where
  "hist_avg sample df =
     (if length sample \<noteq> 0 then mean_or_nan sample
      else case df of
        Some vals \<Rightarrow> if length vals \<noteq> 0 then Some (series_mean vals) else None
      | None \<Rightarrow> None)"

text \<open>\<^verbatim>\<open>forecast_prec\<close>: the mean of the last seven values.\<close>

definition forecast_recent_mean :: "real list option \<Rightarrow> real option" where
  "forecast_recent_mean df =
     (case df of
        Some vals \<Rightarrow> if length vals \<noteq> 0 then Some (series_mean (tail 7 vals)) else None
      | None \<Rightarrow> None)"

text \<open>\<^verbatim>\<open>prior_prec_var\<close>: the sample variance of the day window, else from the
  interquartile range.\<close>

definition prior_var :: "real list \<Rightarrow> hist_stats option \<Rightarrow> real option" where
  "prior_var sample stats =
     (if length sample > 1 then Some (var_ddof1 sample)
      else case stats of
        Some st \<Rightarrow> (let iqr = p75 st - p25 st in
                    Some (if iqr > 0 then (iqr / 1.349)\<^sup>2 else 1))
      | None \<Rightarrow> None)"

text \<open>\<^verbatim>\<open>recent_prec_var\<close>: the sample variance of the last fourteen values.\<close>

definition recent_var :: "real list option \<Rightarrow> real option" where
  "recent_var df =
     (case df of
        Some vals \<Rightarrow>
          if length vals \<ge> 2 then
            (let recent_vals = tail 14 vals in
             if length recent_vals \<ge> 2 then Some (var_ddof1 recent_vals) else None)
          else None
      | None \<Rightarrow> None)"

text \<open>\<^verbatim>\<open>prior_mean_prec\<close>: the median of the day window is preferred.\<close>

definition prior_mean :: "hist_stats option \<Rightarrow> real option \<Rightarrow> real option" where
  "prior_mean stats havg = (case stats of Some st \<Rightarrow> Some (median st) | None \<Rightarrow> havg)"

definition weight_prior :: "real option \<Rightarrow> real option \<Rightarrow> real option" where
  "weight_prior recent_prec_var prior_prec_var =
     (case recent_prec_var of
        None \<Rightarrow> None
      | Some r \<Rightarrow>
         (case prior_prec_var of
            None \<Rightarrow> None
          | Some p \<Rightarrow> if r > 0 \<and> p > 0 then Some (max 0.3 (min 0.9 (r / (r + p)))) else None))"

definition compute_shrunk ::
  "real option \<Rightarrow> real option \<Rightarrow> real option \<Rightarrow> real option \<Rightarrow> real option" where
  "compute_shrunk forecast_val forecast_var prior_mean_v prior_var_v =
     (case forecast_val of
        None \<Rightarrow> prior_mean_v
      | Some f \<Rightarrow>
         (case prior_mean_v of
            None \<Rightarrow> Some f
          | Some p \<Rightarrow>
             (let fv = (case forecast_var of Some v \<Rightarrow> if v > 0 then v else 1 | None \<Rightarrow> 1);
                  pv = (case prior_var_v of Some v \<Rightarrow> if v > 0 then v else 1 | None \<Rightarrow> 1)
              in Some ((f / fv + p / pv) / (1 / fv + 1 / pv)))))"

text \<open>\<^verbatim>\<open>adjusted_prec\<close>, with its final guard \<^verbatim>\<open>if adjusted_prec < 0: adjusted_prec = 0.0\<close>.\<close>

definition adjusted_prec ::
  "real option \<Rightarrow> real list option \<Rightarrow> hist_stats option \<Rightarrow> real option \<Rightarrow> real option \<Rightarrow> real option" where
  "adjusted_prec forecast_prec df stats havg prior_prec_var =
     (case forecast_prec of
        None \<Rightarrow> None
      | Some f \<Rightarrow>
         (let recent_prec_var = recent_var df;
              prior_mean_prec = prior_mean stats havg;
              w = weight_prior recent_prec_var prior_prec_var;
              adj = (case w of
                       None \<Rightarrow> compute_shrunk (Some f) recent_prec_var prior_mean_prec prior_prec_var
                     | Some wv \<Rightarrow>
                        (case prior_mean_prec of
                           None \<Rightarrow> compute_shrunk (Some f) recent_prec_var prior_mean_prec prior_prec_var
                         | Some p \<Rightarrow> Some (wv * p + (1 - wv) * f)))
          in case adj of None \<Rightarrow> None | Some a \<Rightarrow> if a < 0 then Some 0 else Some a))"

text \<open>\<^verbatim>\<open>display_prec\<close>: the base value clamped into the historical range, never negative.\<close>

definition display_prec ::
  "real option \<Rightarrow> real option \<Rightarrow> hist_stats option \<Rightarrow> real option \<Rightarrow> real option" where
  "display_prec adjusted forecast_prec stats havg =
     (case (case adjusted of Some a \<Rightarrow> Some a | None \<Rightarrow> forecast_prec) of
        None \<Rightarrow> None
      | Some bp \<Rightarrow>
         (let bounds =
            (case stats of
               Some st \<Rightarrow> Some (min (p25 st) (p75 st), max (p25 st) (p75 st))
             | None \<Rightarrow>
                (let med = (case stats of Some st \<Rightarrow> Some (median st) | None \<Rightarrow> None) in
                 case med of
                   Some m \<Rightarrow> (case havg of Some avg \<Rightarrow> Some (min m avg, max m avg)
                                            | None \<Rightarrow> Some (0, m))
                 | None \<Rightarrow> (case havg of Some avg \<Rightarrow> Some (0, avg) | None \<Rightarrow> None)))
          in case bounds of
               Some (lo, hi) \<Rightarrow> Some (max 0 (min (max bp lo) hi))
             | None \<Rightarrow> Some (max 0 bp)))"

text \<open>The precipitation part of the compact summary, before the values are rounded to
  two decimals for printing.\<close>

record compact =
  forecast_raw :: "real option"
  forecast_adjusted :: "real option"
  forecast_precip :: "real option"
  historical_avg :: "real option"
  historical_stats :: "hist_stats option"
  climate_risk_score :: int
  compact_risk_label :: string

definition compact_summary :: "real list option \<Rightarrow> real list \<Rightarrow> compact" where
  "compact_summary df_prec prec_sample =
     (let havg = hist_avg prec_sample df_prec;
          forecast_prec = forecast_recent_mean df_prec;
          stats_prec = hist_stats_from_array prec_sample;
          prior_prec_var = prior_var prec_sample stats_prec;
          adjusted = adjusted_prec forecast_prec df_prec stats_prec havg prior_prec_var;
          disp = display_prec adjusted forecast_prec stats_prec havg;
          rain_mm_for_risk =
            (case disp of Some d \<Rightarrow> Some d
             | None \<Rightarrow> (case adjusted of Some a \<Rightarrow> Some a | None \<Rightarrow> forecast_prec));
          sc = score rain_mm_for_risk
      in \<lparr>forecast_raw = forecast_prec, forecast_adjusted = adjusted,
          forecast_precip = disp, historical_avg = havg, historical_stats = stats_prec,
          climate_risk_score = sc, compact_risk_label = risk_label sc\<rparr>)"

section \<open>Fetching the historical series (forecast-power script)\<close>

text \<open>
  \<^verbatim>\<open>fetch_power_point\<close> after the HTTP exchange: the response is either a JSON
  parameter block (a dictionary from date keys to values; a key that
  \<^verbatim>\<open>pd.to_datetime\<close> rejects is \<^term>\<open>None\<close>), a block that is not a dictionary, or,
  when no block is found, the table read from the CSV endpoint (rows whose date parsed).
  A JSON value is a number, \<^verbatim>\<open>null\<close>, or text on which \<^verbatim>\<open>float\<close> raises.
\<close>

type_synonym date = int

datatype jval = JNum real | JNull | JText string

datatype csvcell = CNum real | CEmpty | CText string

datatype cell = Num real | NaN | Obj string

datatype response =
    JsonBlock "(date option \<times> jval) list"
  | JsonOther
  | CsvTable "(date \<times> csvcell) list"

text \<open>The body of the loop over \<^verbatim>\<open>data.items()\<close>: sentinel codes become NaN.\<close>

definition json_value :: "jval \<Rightarrow> cell" where
  "json_value v = (case v of
       JNum vv \<Rightarrow> if vv \<le> - 900 then NaN else Num vv
     | JNull \<Rightarrow> NaN
     | JText t \<Rightarrow> Obj t)"

definition json_rows :: "(date option \<times> jval) list \<Rightarrow> (date \<times> cell) list" where
  "json_rows items =
     concat (map (\<lambda>(k, v). case k of None \<Rightarrow> [] | Some dt \<Rightarrow> [(dt, json_value v)]) items)"

text \<open>The CSV fallback: \<^verbatim>\<open>pd.to_numeric(errors='coerce')\<close>, the sentinel
  replacement, then \<^verbatim>\<open>dropna\<close>.\<close>

definition to_numeric :: "csvcell \<Rightarrow> real option" where
  "to_numeric c = (case c of CNum x \<Rightarrow> Some x | CEmpty \<Rightarrow> None | CText t \<Rightarrow> None)"

definition csv_value :: "csvcell \<Rightarrow> real option" where
  "csv_value c = (case to_numeric c of
       Some x \<Rightarrow> if x \<le> - 900 then None else Some x
     | None \<Rightarrow> None)"

definition csv_rows :: "(date \<times> csvcell) list \<Rightarrow> (date \<times> cell) list" where
  "csv_rows tbl =
     concat (map (\<lambda>(d, c). case csv_value c of None \<Rightarrow> [] | Some x \<Rightarrow> [(d, Num x)]) tbl)"

definition fetch_power_point :: "response \<Rightarrow> py_error + (date \<times> cell) list" where
  "fetch_power_point r = (case r of
       CsvTable tbl \<Rightarrow> Inr (sort_key fst (csv_rows tbl))
     | JsonBlock items \<Rightarrow>
         (let rows = json_rows items in
          if rows = [] then Inl KeyError else Inr (sort_key fst rows))
     | JsonOther \<Rightarrow> Inl RuntimeError)"

section \<open>The forecast-power run: preparation, fitting chain, forecast, exceedance\<close>

text \<open>Lines 351 to 355 of \<^verbatim>\<open>main\<close>: rename, \<^verbatim>\<open>dropna\<close>, and the
  Kelvin heuristic. \<^verbatim>\<open>mean()\<close> raises on a column that holds text.\<close>

definition dropna :: "(date \<times> cell) list \<Rightarrow> (date \<times> cell) list" where
  "dropna df = filter (\<lambda>(d, c). c \<noteq> NaN) df"

definition numeric_rows :: "(date \<times> cell) list \<Rightarrow> (date \<times> real) list option" where
  "numeric_rows df =
     (if list_all (\<lambda>(d, c). case c of Num x \<Rightarrow> True | _ \<Rightarrow> False) df
      then Some (concat (map (\<lambda>(d, c). case c of Num x \<Rightarrow> [(d, x)] | _ \<Rightarrow> []) df))
      else None)"

definition main_prepare :: "(date \<times> cell) list \<Rightarrow> py_error + (date \<times> real) list" where
  "main_prepare fetched =
     (case numeric_rows (dropna fetched) of
        None \<Rightarrow> Inl TypeError
      | Some df \<Rightarrow>
         (case np_mean (map snd df) of
            Some m \<Rightarrow> if m > 200 then Inr (map (\<lambda>(d, v). (d, v - 273.15)) df) else Inr df
          | None \<Rightarrow> Inr df))"

text \<open>\<^verbatim>\<open>forecast_start\<close>: the parsed \<^verbatim>\<open>--forecast-start\<close>, else tomorrow.\<close>

definition forecast_start_of :: "date option \<Rightarrow> date \<Rightarrow> date" where
  "forecast_start_of override today = (case override of Some d \<Rightarrow> d | None \<Rightarrow> today + 1)"

text \<open>
  One row of the forecast table. A fitted SARIMAX result is the function from the step
  ahead (counted from 0) to its forecast row, so that \<^verbatim>\<open>get_forecast(steps)\<close> is
  its first \<open>steps\<close> values. The optional imports are \<^term>\<open>None\<close> when the import
  failed: \<^verbatim>\<open>SARIMAX\<close> builds and fits a model for an order and a seasonal order,
  \<^verbatim>\<open>pm\<close> is \<^verbatim>\<open>auto_arima\<close> for a series and a seasonal period, \<^verbatim>\<open>Prophet\<close>
  fits a history. The \<^verbatim>\<open>predict\<close> of the fitted Prophet model samples its interval
  bounds from NumPy's process-wide generator: it takes the stream of that generator and
  the future frame, and returns the row of every date together with the stream that is
  left for the calls that follow.
\<close>

type_synonym rng = "nat \<Rightarrow> real"

record forecast_row =
  mean :: real
  lower :: real
  upper :: real

type_synonym sarimax_res = "nat \<Rightarrow> forecast_row"
type_synonym arima_order = "nat \<times> nat \<times> nat"
type_synonym seasonal_order = "nat \<times> nat \<times> nat \<times> nat"

record libs =
  SARIMAX :: "(real list \<Rightarrow> arima_order \<Rightarrow> seasonal_order \<Rightarrow> py_error + sarimax_res) option"
  pm :: "(real list \<Rightarrow> nat \<Rightarrow> py_error + arima_order \<times> seasonal_order) option"
  Prophet :: "((date \<times> real) list
                 \<Rightarrow> py_error + (rng \<Rightarrow> date list \<Rightarrow> (date \<Rightarrow> forecast_row) \<times> rng)) option"

definition select_order :: "libs \<Rightarrow> real list \<Rightarrow> arima_order \<times> seasonal_order" where
  "select_order L series =
     (case pm L of
        None \<Rightarrow> ((1, 0, 0), (0, 0, 0, 0))
      | Some auto_arima \<Rightarrow>
         (let m = (if length series > 365 * 2 then 365 else 7) in
          case auto_arima series m of
            Inr found \<Rightarrow> found
          | Inl e \<Rightarrow> ((1, 0, 0), (0, 0, 0, 0))))"

definition fit_sarimax :: "libs \<Rightarrow> real list \<Rightarrow> py_error + sarimax_res" where
  "fit_sarimax L series =
     (case SARIMAX L of
        None \<Rightarrow> Inl RuntimeError
      | Some model \<Rightarrow>
         (case select_order L series of (order, seasonal) \<Rightarrow> model series order seasonal))"

text \<open>\<^verbatim>\<open>pd.date_range(start, periods, freq='D')\<close>\<close>

definition date_range :: "date \<Rightarrow> nat \<Rightarrow> date list" where
  "date_range start periods = map (\<lambda>k. start + int k) [0..<periods]"

text \<open>\<^verbatim>\<open>res.get_forecast(steps)\<close> raises \<^verbatim>\<open>ValueError\<close> for a horizon of no steps.\<close>

definition forecast_sarimax ::
  "sarimax_res \<Rightarrow> date \<Rightarrow> nat \<Rightarrow> py_error + (date \<times> forecast_row) list" where
  "forecast_sarimax res start_date steps =
     (if steps = 0 then Inl ValueError
      else Inr (zip (date_range start_date steps) (map res [0..<steps])))"

text \<open>
  Prophet's \<^verbatim>\<open>make_future_dataframe(periods)\<close> (library code): the distinct history
  dates in increasing order, followed by the \<open>periods\<close> days after the last of them.
  Prophet refuses to fit a history of fewer than two rows.
\<close>

definition make_future_dataframe :: "date list \<Rightarrow> nat \<Rightarrow> date list" where
  "make_future_dataframe history_dates periods =
     (let hs = remdups (sort history_dates) in
      hs @ (if hs = [] then [] else date_range (last hs + 1) periods))"

definition forecast_prophet ::
  "libs \<Rightarrow> rng \<Rightarrow> (date \<times> real) list \<Rightarrow> date \<Rightarrow> nat
     \<Rightarrow> py_error + (date \<times> forecast_row) list \<times> rng" where
  "forecast_prophet L z history_df start_date steps =
     (case Prophet L of
        None \<Rightarrow> Inl RuntimeError
      | Some fit \<Rightarrow>
         (if length history_df < 2 then Inl ValueError
          else case fit history_df of
            Inl e \<Rightarrow> Inl e
          | Inr predict \<Rightarrow>
             (let future = make_future_dataframe (map fst history_df) steps;
                  f = map (\<lambda>ds. (ds, fst (predict z future) ds)) future
              in Inr (filter (\<lambda>(ds, r). start_date \<le> ds \<and> ds \<le> start_date + (int steps - 1)) f,
                      snd (predict z future)))))"

text \<open>Lines 366 to 385: the fallback chain. \<^verbatim>\<open>sys.exit(1)\<close> is \<^term>\<open>Inl SystemExit\<close>;
  an exception of \<^verbatim>\<open>forecast_sarimax\<close> or of \<^verbatim>\<open>forecast_prophet\<close> is not caught
  and ends the run. The result is the forecast table and the generator's stream after
  the forecast; the SARIMAX path draws nothing from it.\<close>

definition main_forecast ::
  "libs \<Rightarrow> rng \<Rightarrow> (date \<times> real) list \<Rightarrow> date \<Rightarrow> nat
     \<Rightarrow> py_error + (date \<times> forecast_row) list \<times> rng" where
  "main_forecast L z df forecast_start forecast_days =
     (case fit_sarimax L (map snd df) of
        Inr model_res \<Rightarrow>
          (case forecast_sarimax model_res forecast_start forecast_days of
             Inl e \<Rightarrow> Inl e
           | Inr df_fore \<Rightarrow> Inr (df_fore, z))
      | Inl e \<Rightarrow>
         (if Prophet L \<noteq> None then forecast_prophet L z df forecast_start forecast_days
          else Inl SystemExit))"

section \<open>Monte-Carlo exceedance (forecast-power script)\<close>

text \<open>
  NumPy's process-wide generator is the stream \<open>z\<close> of the standard normal variates it
  delivers, in the order of the calls; neither script seeds it.
  \<^verbatim>\<open>np.random.normal(loc, scale)\<close> fills its result in row-major order with
  \<open>loc + scale * z k\<close> and raises \<^verbatim>\<open>ValueError\<close> on a negative scale. In both
  scripts the location (and here the scale) matrix repeats one value per forecast day
  along a row of \<open>N\<close> columns, so a row of the argument is the pair of that day's
  location and scale.
\<close>

definition random_normal :: "(nat \<Rightarrow> real) \<Rightarrow> nat \<Rightarrow> (real \<times> real) list \<Rightarrow> py_error + real list list" where
  "random_normal z N loc_scale =
     (if list_ex (\<lambda>(loc, scale). scale < 0) loc_scale \<and> N > 0 then Inl ValueError
      else Inr (map (\<lambda>i. map (\<lambda>j. fst (loc_scale ! i) + snd (loc_scale ! i) * z (i * N + j)) [0..<N])
                  [0..<length loc_scale]))"

text \<open>The mean of a Boolean array (\<^verbatim>\<open>True\<close> counts 1): NaN on an empty array.\<close>

definition bool_mean :: "bool list \<Rightarrow> real option" where
  "bool_mean bs = (if bs = [] then None else Some (real (length (filter id bs)) / real (length bs)))"

definition exceed :: "real list list \<Rightarrow> real \<Rightarrow> bool list list" where
  "exceed sim_matrix threshold = map (map (\<lambda>x. x > threshold)) sim_matrix"

definition Nsim :: nat where
  "Nsim = 2000"

text \<open>\<^verbatim>\<open>df_fore['std']\<close>; both forecasters deliver the columns \<^verbatim>\<open>lower\<close> and
  \<^verbatim>\<open>upper\<close>.\<close>

definition row_std :: "forecast_row \<Rightarrow> real" where
  "row_std r = (upper r - lower r) / (2 * 1.96)"

record exceedance =
  prob_per_day :: "real option list"
  overall_prob :: "real option"

text \<open>Lines 387 to 406 of \<^verbatim>\<open>main\<close>.\<close>

definition main_exceedance ::
  "(nat \<Rightarrow> real) \<Rightarrow> (date \<times> forecast_row) list \<Rightarrow> real \<Rightarrow> py_error + exceedance" where
  "main_exceedance z df_fore threshold =
     (if length df_fore > 0 then
        (case random_normal z Nsim (map (\<lambda>(d, r). (mean r, row_std r)) df_fore) of
           Inl e \<Rightarrow> Inl e
         | Inr sim_matrix \<Rightarrow>
            (let sim_exceed = exceed sim_matrix threshold in
             Inr \<lparr>prob_per_day = map bool_mean sim_exceed,
                  overall_prob = bool_mean (concat sim_exceed)\<rparr>))
      else Inr \<lparr>prob_per_day = [], overall_prob = None\<rparr>)"

section \<open>The multivariate script\<close>

text \<open>
  A frame is its column names and its rows, each a date with the row's cells by column
  name; a cell is a float, \<^term>\<open>None\<close> for NaN. A column absent from a row reads as NaN,
  as it does after \<^verbatim>\<open>pd.concat\<close>.
\<close>

record frame =
  columns :: "string list"
  rows :: "(date \<times> (string \<times> real option) list) list"

definition cell_of :: "(string \<times> real option) list \<Rightarrow> string \<Rightarrow> real option" where
  "cell_of r c = (case map_of r c of Some v \<Rightarrow> v | None \<Rightarrow> None)"

definition col_values :: "frame \<Rightarrow> string \<Rightarrow> real option list" where
  "col_values df c = map (\<lambda>(d, r). cell_of r c) (rows df)"

definition upper_char :: "char \<Rightarrow> char" where
  "upper_char c = (let n = (of_char c :: nat) in if 97 \<le> n \<and> n \<le> 122 then char_of (n - 32) else c)"

definition str_upper :: "string \<Rightarrow> string" where
  "str_upper s = map upper_char s"

definition startswith :: "string \<Rightarrow> string \<Rightarrow> bool" where
  "startswith s p = (take (length p) s = p)"

definition contains :: "string \<Rightarrow> string \<Rightarrow> bool" where
  "contains s p = list_ex (\<lambda>i. take (length p) (drop i s) = p) [0..<Suc (length s)]"

text \<open>
  \<^verbatim>\<open>fetch_power_csv\<close> after the HTTP exchange and \<^verbatim>\<open>read_csv\<close>: the argument is the
  table read, with the date column parsed and set as index. Each requested parameter
  takes the first column whose upper-cased name equals or starts with it, or a column
  of NaN; the cells are copied as they are.
\<close>

definition find_column :: "string list \<Rightarrow> string \<Rightarrow> string option" where
  "find_column cs p =
     List.find (\<lambda>c. str_upper c = str_upper p \<or> startswith (str_upper c) (str_upper p)) cs"

definition fetch_power_csv :: "frame \<Rightarrow> string list \<Rightarrow> frame" where
  "fetch_power_csv csv parameters =
     (let df = sort_key fst (rows csv); ps = rev (remdups (rev parameters)) in
      \<lparr>columns = ps,
       rows = map (\<lambda>(d, r). (d, map (\<lambda>p. (p, case find_column (columns csv) p of
                                                   None \<Rightarrow> None
                                                 | Some col \<Rightarrow> cell_of r col))
                                    ps)) df\<rparr>)"

text \<open>Lines 203 to 214 of \<^verbatim>\<open>main\<close>: the target column is renamed, the index is made
  daily, and NaN cells are filled forwards, then backwards.\<close>

definition rename_target :: "frame \<Rightarrow> frame" where
  "rename_target df =
     (if ''T2M'' \<in> set (columns df) then df
      else case List.find (\<lambda>c. contains (str_upper c) ''T2M'') (columns df) of
        None \<Rightarrow> df
      | Some c \<Rightarrow>
         \<lparr>columns = map (\<lambda>x. if x = c then ''T2M'' else x) (columns df),
          rows = map (\<lambda>(d, r). (d, map (\<lambda>(k, v). (if k = c then ''T2M'' else k, v)) r)) (rows df)\<rparr>)"

definition reindex_daily :: "frame \<Rightarrow> py_error + frame" where
  "reindex_daily df =
     (case map fst (rows df) of
        [] \<Rightarrow> Inl ValueError
      | d0 # ds \<Rightarrow>
         (if \<not> distinct (d0 # ds) then Inl ValueError
          else
            (let lo = fold min ds d0; hi = fold max ds d0 in
             Inr \<lparr>columns = columns df,
                  rows = map (\<lambda>d. (d, case map_of (rows df) d of
                                         Some r \<Rightarrow> r
                                       | None \<Rightarrow> map (\<lambda>c. (c, None)) (columns df)))
                              (date_range lo (nat (hi - lo + 1)))\<rparr>)))"

fun ffill :: "real option \<Rightarrow> real option list \<Rightarrow> real option list" where
  "ffill prev [] = []"
| "ffill prev (None # xs) = prev # ffill prev xs"
| "ffill prev (Some v # xs) = Some v # ffill (Some v) xs"

definition bfill :: "real option list \<Rightarrow> real option list" where
  "bfill xs = rev (ffill None (rev xs))"

definition fillna :: "frame \<Rightarrow> frame" where
  "fillna df =
     \<lparr>columns = columns df,
      rows = map (\<lambda>i. (fst (rows df ! i),
                       map (\<lambda>c. (c, bfill (ffill None (col_values df c)) ! i)) (columns df)))
                 [0..<length (rows df)]\<rparr>"

definition main_load :: "frame \<Rightarrow> string list \<Rightarrow> py_error + frame" where
  "main_load csv vars =
     (case reindex_daily (rename_target (fetch_power_csv csv vars)) of
        Inl e \<Rightarrow> Inl e
      | Inr df \<Rightarrow> Inr (fillna df))"

text \<open>
  The feature names of \<^verbatim>\<open>create_lag_features\<close>, \<^verbatim>\<open>f"{col}_lag{lag}"\<close> and
  \<^verbatim>\<open>f"{col}_curr"\<close>, are kept as terms instead of formatted strings.
\<close>

datatype feature = Lag string nat | Curr string

definition feature_names :: "string list \<Rightarrow> nat \<Rightarrow> feature list" where
  "feature_names cols lags =
     concat (map (\<lambda>col. map (\<lambda>lag. Lag col lag) [1..<Suc lags]) cols) @ map Curr cols"

text \<open>One pass of the loop body of \<^verbatim>\<open>iterative_forecast\<close>: the dictionary \<^verbatim>\<open>row\<close>.
  An index into an empty column raises.\<close>

definition lag_value :: "real option list \<Rightarrow> nat \<Rightarrow> py_error + real option" where
  "lag_value vals lag =
     (if length vals \<ge> lag \<and> lag > 0 then Inr (vals ! (length vals - lag))
      else if vals = [] then Inl IndexError else Inr (vals ! 0))"

definition last_value :: "real option list \<Rightarrow> py_error + real option" where
  "last_value vals = (if vals = [] then Inl IndexError else Inr (last vals))"

fun collect :: "(py_error + 'a) list \<Rightarrow> py_error + 'a list" where
  "collect [] = Inr []"
| "collect (Inl e # xs) = Inl e"
| "collect (Inr v # xs) = (case collect xs of Inl e \<Rightarrow> Inl e | Inr vs \<Rightarrow> Inr (v # vs))"

definition build_row :: "frame \<Rightarrow> string list \<Rightarrow> nat \<Rightarrow> py_error + (feature \<times> real option) list" where
  "build_row history cols lags =
     collect (concat (map (\<lambda>col.
        (let vals = col_values history col in
         map (\<lambda>lag. case lag_value vals lag of Inl e \<Rightarrow> Inl e | Inr v \<Rightarrow> Inr (Lag col lag, v))
             [1..<Suc lags]
         @ [case last_value vals of Inl e \<Rightarrow> Inl e | Inr v \<Rightarrow> Inr (Curr col, v)])) cols))"

definition feature_vector ::
  "(feature \<times> real option) list \<Rightarrow> feature list \<Rightarrow> py_error + real option list" where
  "feature_vector row features_cols =
     collect (map (\<lambda>c. case map_of row c of None \<Rightarrow> Inl KeyError | Some v \<Rightarrow> Inr v) features_cols)"

text \<open>The row appended to the history: the prediction for \<^verbatim>\<open>T2M\<close>, the last value
  of every other column.\<close>

definition new_row :: "frame \<Rightarrow> string list \<Rightarrow> real \<Rightarrow> py_error + (string \<times> real option) list" where
  "new_row history cols ypred =
     collect (map (\<lambda>col. if col = ''T2M'' then Inr (col, Some ypred)
                         else case last_value (col_values history col) of
                                Inl e \<Rightarrow> Inl e
                              | Inr v \<Rightarrow> Inr (col, v)) cols)"

text \<open>The loop \<^verbatim>\<open>for step in range(1, forecast_days + 1)\<close>; the first argument counts
  the passes that remain. \<^verbatim>\<open>last_date\<close> is \<^term>\<open>None\<close> (NaT) for an empty index.\<close>

fun forecast_loop ::
  "nat \<Rightarrow> nat \<Rightarrow> (real option list \<Rightarrow> real) \<Rightarrow> string list \<Rightarrow> date option \<Rightarrow> feature list \<Rightarrow> nat
     \<Rightarrow> frame \<Rightarrow> py_error + (date option \<times> real) list" where
  "forecast_loop 0 step model cols last_date features_cols lags history = Inr []"
| "forecast_loop (Suc n) step model cols last_date features_cols lags history =
     (case build_row history cols lags of
        Inl e \<Rightarrow> Inl e
      | Inr row \<Rightarrow>
         (case feature_vector row features_cols of
            Inl e \<Rightarrow> Inl e
          | Inr x \<Rightarrow>
             (let ypred = model x;
                  new_date = map_option (\<lambda>d. d + int step) last_date
              in case new_row history cols ypred of
                   Inl e \<Rightarrow> Inl e
                 | Inr nr \<Rightarrow>
                    (let history' = history\<lparr>rows := rows history @
                           (case new_date of None \<Rightarrow> [] | Some d \<Rightarrow> [(d, nr)])\<rparr>
                     in case forecast_loop n (Suc step) model cols last_date features_cols lags history' of
                          Inl e \<Rightarrow> Inl e
                        | Inr results \<Rightarrow> Inr ((new_date, ypred) # results)))))"

definition index_max :: "frame \<Rightarrow> date option" where
  "index_max df = (case map fst (rows df) of [] \<Rightarrow> None | d # ds \<Rightarrow> Some (fold max ds d))"

definition iterative_forecast ::
  "(real option list \<Rightarrow> real) \<Rightarrow> frame \<Rightarrow> nat \<Rightarrow> feature list \<Rightarrow> nat
     \<Rightarrow> py_error + (date option \<times> real) list" where
  "iterative_forecast model df_hist forecast_days features_cols lags =
     (case forecast_loop forecast_days 1 model (columns df_hist) (index_max df_hist)
             features_cols lags df_hist of
        Inl e \<Rightarrow> Inl e
      | Inr results \<Rightarrow> if results = [] then Inl KeyError else Inr results)"

text \<open>\<^verbatim>\<open>simulate_uncertainty\<close>: one scale for every day, the population standard
  deviation of the held-out residuals, or 1.5 without residuals.\<close>

definition np_std :: "real list \<Rightarrow> real" where
  "np_std xs = (let m = series_mean xs in sqrt (sum_list (map (\<lambda>x. (x - m)\<^sup>2) xs) / real (length xs)))"

definition simulate_uncertainty ::
  "(nat \<Rightarrow> real) \<Rightarrow> (date option \<times> real) list \<Rightarrow> real list \<Rightarrow> nat \<Rightarrow> py_error + real list list" where
  "simulate_uncertainty z df_fore residuals nsim =
     (let res_std = (if length residuals = 0 then 1.5 else np_std residuals) in
      random_normal z nsim (map (\<lambda>(d, m). (m, res_std)) df_fore))"

text \<open>Lines 224 to 228 of \<^verbatim>\<open>main\<close>.\<close>

definition mv_exceedance ::
  "(nat \<Rightarrow> real) \<Rightarrow> (date option \<times> real) list \<Rightarrow> real list \<Rightarrow> real \<Rightarrow> py_error + exceedance" where
  "mv_exceedance z df_fore residuals threshold =
     (case simulate_uncertainty z df_fore residuals 2000 of
        Inl e \<Rightarrow> Inl e
      | Inr sims \<Rightarrow>
         (let ex = exceed sims threshold in
          Inr \<lparr>prob_per_day = map bool_mean ex, overall_prob = bool_mean (concat ex)\<rparr>))"

section \<open>The two runs\<close>

text \<open>The forecast-power run from the prepared series on, and from the response on.\<close>

definition main_after_prepare ::
  "libs \<Rightarrow> (nat \<Rightarrow> real) \<Rightarrow> (date \<times> real) list \<Rightarrow> date option \<Rightarrow> date \<Rightarrow> nat \<Rightarrow> real
     \<Rightarrow> py_error + (date \<times> forecast_row) list \<times> exceedance" where
  "main_after_prepare L z df override today forecast_days threshold =
     (case main_forecast L z df (forecast_start_of override today) forecast_days of
        Inl e \<Rightarrow> Inl e
      | Inr (df_fore, z') \<Rightarrow>
         (case main_exceedance z' df_fore threshold of
            Inl e \<Rightarrow> Inl e
          | Inr ex \<Rightarrow> Inr (df_fore, ex)))"

definition forecast_power_main ::
  "libs \<Rightarrow> (nat \<Rightarrow> real) \<Rightarrow> response \<Rightarrow> date option \<Rightarrow> date \<Rightarrow> nat \<Rightarrow> real
     \<Rightarrow> py_error + (date \<times> forecast_row) list \<times> exceedance" where
  "forecast_power_main L z r override today forecast_days threshold =
     (case fetch_power_point r of
        Inl e \<Rightarrow> Inl e
      | Inr fetched \<Rightarrow>
         (case main_prepare fetched of
            Inl e \<Rightarrow> Inl e
          | Inr df \<Rightarrow> main_after_prepare L z df override today forecast_days threshold))"

text \<open>
  The compact branch of \<^verbatim>\<open>main\<close>, after the exceedance computation: \<^verbatim>\<open>tomorrow\<close>
  is the first date of the forecast table (NaT, here \<^term>\<open>None\<close>, for an empty table),
  \<^verbatim>\<open>sample_day_window(df_prec, tomorrow)\<close> reads the fetched precipitation series and
  the calendar and is the parameter \<open>sample\<close>, and the risk score is that of
  \<^const>\<open>compact_summary\<close>. An exception in the branch is caught: the run then ends
  without a compact summary.
\<close>

definition index_min :: "(date \<times> forecast_row) list \<Rightarrow> date option" where
  "index_min df = (case map fst df of [] \<Rightarrow> None | d # ds \<Rightarrow> Some (fold min ds d))"

definition main_compact ::
  "(date option \<Rightarrow> py_error + real list) \<Rightarrow> real list option \<Rightarrow> (date \<times> forecast_row) list
     \<Rightarrow> compact option" where
  "main_compact sample df_prec df_fore =
     (let tomorrow = index_min df_fore in
      case sample tomorrow of
        Inl e \<Rightarrow> None
      | Inr prec_sample \<Rightarrow> Some (compact_summary df_prec prec_sample))"

definition main_after_prepare_compact ::
  "libs \<Rightarrow> rng \<Rightarrow> (date \<times> real) list \<Rightarrow> (date option \<Rightarrow> py_error + real list)
     \<Rightarrow> real list option \<Rightarrow> date option \<Rightarrow> date \<Rightarrow> nat \<Rightarrow> real
     \<Rightarrow> py_error + (date \<times> forecast_row) list \<times> exceedance \<times> compact option" where
  "main_after_prepare_compact L z df sample df_prec override today forecast_days threshold =
     (case main_after_prepare L z df override today forecast_days threshold of
        Inl e \<Rightarrow> Inl e
      | Inr (df_fore, ex) \<Rightarrow> Inr (df_fore, ex, main_compact sample df_prec df_fore))"

text \<open>
  The multivariate run. \<^verbatim>\<open>train_model\<close> hands the lag features of its frame to
  scikit-learn; it is the parameter \<open>train\<close>, \<^term>\<open>None\<close> when scikit-learn is
  missing, and returns the fitted predictor and the held-out residuals. The feature
  columns are those of \<^verbatim>\<open>create_lag_features\<close>.
\<close>

definition forecast_multivariate_main ::
  "(frame \<Rightarrow> nat \<Rightarrow> py_error + (real option list \<Rightarrow> real) \<times> real list) option \<Rightarrow> (nat \<Rightarrow> real)
     \<Rightarrow> frame \<Rightarrow> string list \<Rightarrow> nat \<Rightarrow> nat \<Rightarrow> real
     \<Rightarrow> py_error + (date option \<times> real) list \<times> exceedance" where
  "forecast_multivariate_main train z csv vars forecast_days lags threshold =
     (case train of
        None \<Rightarrow> Inl RuntimeError
      | Some train_model \<Rightarrow>
         (case main_load csv vars of
            Inl e \<Rightarrow> Inl e
          | Inr df \<Rightarrow>
             (case train_model df lags of
                Inl e \<Rightarrow> Inl e
              | Inr (model, residuals) \<Rightarrow>
                 (case iterative_forecast model df forecast_days
                         (feature_names (columns df) lags) lags of
                    Inl e \<Rightarrow> Inl e
                  | Inr df_fore \<Rightarrow>
                     (case mv_exceedance z df_fore residuals threshold of
                        Inl e \<Rightarrow> Inl e
                      | Inr ex \<Rightarrow> Inr (df_fore, ex))))))"

text \<open>The fraction of the values of \<open>xs\<close> that exceed \<open>T\<close>.\<close>

definition fraction_above :: "real \<Rightarrow> real list \<Rightarrow> real" where
  "fraction_above T xs = real (length (filter (\<lambda>x. x > T) xs)) / real (length xs)"

section \<open>Properties of the risk scorer and the blending\<close>

lemmas blend_defs = compact_summary_def hist_avg_def forecast_recent_mean_def
  hist_stats_from_array_def prior_var_def adjusted_prec_def recent_var_def prior_mean_def
  weight_prior_def compute_shrunk_def display_prec_def tail_def series_mean_def var_ddof1_def
  np_median_def np_percentile_def mean_or_nan_def Let_def





text \<open>
  C7, as stated, fails where the blend is negative: for the series \<open>[-4, -6]\<close> and the
  day window \<open>[-5, -7]\<close> both variances are 2, the weight is 1/2, the prior mean is
  \<open>-6\<close> and the raw forecast \<open>-5\<close>, but the adjusted value is 0 and not \<open>-11/2\<close>.
\<close>

theorem adjusted_not_plain_blend:
  "recent_var (Some [- 4, - 6]) = Some 2
   \<and> prior_var [- 5, - 7] (hist_stats_from_array [- 5, - 7]) = Some 2
   \<and> weight_prior (Some 2) (Some 2) = Some (1 / 2)
   \<and> prior_mean (hist_stats_from_array [- 5, - 7]) (hist_avg [- 5, - 7] (Some [- 4, - 6])) = Some (- 6)
   \<and> forecast_raw (compact_summary (Some [- 4, - 6]) [- 5, - 7]) = Some (- 5)
   \<and> forecast_adjusted (compact_summary (Some [- 4, - 6]) [- 5, - 7]) = Some 0
   \<and> forecast_adjusted (compact_summary (Some [- 4, - 6]) [- 5, - 7])
        \<noteq> Some (1 / 2 * (- 6) + (1 - 1 / 2) * (- 5))"
  by (simp add: blend_defs power2_eq_square)

text \<open>
  C7, amended. When the recent variance \<open>v\<^sub>f\<close> and the prior variance \<open>v\<^sub>p\<close> both
  exist and are positive, the weight on the prior is
  \<open>w = max 0.3 (min 0.9 (v\<^sub>f / (v\<^sub>f + v\<^sub>p)))\<close>, so \<open>0.3 \<le> w \<le> 0.9\<close>; the raw forecast
  \<open>f\<close> is the mean of the last seven values, the prior mean \<open>p\<close> is the median of the
  day window, and the adjusted value is \<open>max 0 (w * p + (1 - w) * f)\<close>: the blend,
  floored at zero.
\<close>

theorem shrinkage_weight_and_blend:
  assumes rv: "recent_var df_prec = Some vf"
    and pv: "prior_var sample (hist_stats_from_array sample) = Some vp"
    and pos: "0 < vf" "0 < vp"
  shows "\<exists>vals w. df_prec = Some vals \<and> w = max 0.3 (min 0.9 (vf / (vf + vp)))
     \<and> weight_prior (recent_var df_prec) (prior_var sample (hist_stats_from_array sample)) = Some w
     \<and> 0.3 \<le> w \<and> w \<le> 0.9
     \<and> forecast_raw (compact_summary df_prec sample) = Some (series_mean (tail 7 vals))
     \<and> prior_mean (hist_stats_from_array sample) (hist_avg sample df_prec)
          = Some (np_median sample)
     \<and> forecast_adjusted (compact_summary df_prec sample)
          = Some (max 0 (w * np_median sample + (1 - w) * series_mean (tail 7 vals)))"
proof -
  from rv obtain vals where v: "df_prec = Some vals" "length vals \<ge> 2"
    by (auto simp: recent_var_def split: option.splits if_splits)
  from pv have s: "sample \<noteq> []"
    by (auto simp: prior_var_def hist_stats_from_array_def split: option.splits if_splits)
  show ?thesis using v s rv pv pos
    by (auto simp: compact_summary_def adjusted_prec_def weight_prior_def prior_mean_def
        hist_stats_from_array_def forecast_recent_mean_def Let_def max_def min_def)
qed

theorem shrinkage_weight_and_blend_witness:
  "recent_var (Some [1, 3]) = Some 2
   \<and> prior_var [2, 6] (hist_stats_from_array [2, 6]) = Some 8
   \<and> (0::real) < 2 \<and> (0::real) < 8
   \<and> weight_prior (recent_var (Some [1, 3])) (prior_var [2, 6] (hist_stats_from_array [2, 6]))
        = Some (3 / 10)
   \<and> forecast_adjusted (compact_summary (Some [1, 3]) [2, 6]) = Some (13 / 5)"
  using shrinkage_weight_and_blend [of "Some [1, 3]" 2 "[2, 6]" 8]
  by (simp add: blend_defs power2_eq_square)

lemma display_prec_range:
  assumes "display_prec adjusted forecast_prec stats havg = Some d"
  shows "0 \<le> d \<and> (\<forall>st. stats = Some st \<and> 0 \<le> max (p25 st) (p75 st)
            \<longrightarrow> min (p25 st) (p75 st) \<le> d \<and> d \<le> max (p25 st) (p75 st))"
  using assms
  by (auto simp: display_prec_def Let_def max_def min_def split: option.splits if_splits)

text \<open>
  C8, as stated, fails when both quartiles are negative: for the series \<open>[-2, -2]\<close> and
  the day window \<open>[-3, -1]\<close> the quartiles are \<open>-5/2\<close> and \<open>-3/2\<close>, and the display
  value 0 lies above both.
\<close>

theorem display_outside_quartiles:
  "forecast_precip (compact_summary (Some [- 2, - 2]) [- 3, - 1]) = Some 0
   \<and> map_option p25 (historical_stats (compact_summary (Some [- 2, - 2]) [- 3, - 1])) = Some (- 5 / 2)
   \<and> map_option p75 (historical_stats (compact_summary (Some [- 2, - 2]) [- 3, - 1])) = Some (- 3 / 2)
   \<and> \<not> (min (- 5 / 2) (- 3 / 2) \<le> (0::real) \<and> (0::real) \<le> max (- 5 / 2) (- 3 / 2))"
  by (simp add: blend_defs power2_eq_square)

text \<open>
  C8, amended. Every display value is non-negative; and when the quartiles exist and the
  larger of them is not negative, the display value lies within
  \<open>[min p25 p75, max p25 p75]\<close>.
\<close>

theorem display_nonneg_within_quartiles:
  assumes "forecast_precip (compact_summary df_prec sample) = Some d"
  shows "0 \<le> d
     \<and> (\<forall>st. historical_stats (compact_summary df_prec sample) = Some st
              \<and> 0 \<le> max (p25 st) (p75 st)
            \<longrightarrow> min (p25 st) (p75 st) \<le> d \<and> d \<le> max (p25 st) (p75 st))"
proof -
  have "display_prec (forecast_adjusted (compact_summary df_prec sample))
          (forecast_recent_mean df_prec) (hist_stats_from_array sample)
          (hist_avg sample df_prec) = Some d"
    using assms by (simp add: compact_summary_def Let_def)
  from display_prec_range [OF this] show ?thesis
    by (simp add: compact_summary_def Let_def)
qed

theorem display_nonneg_within_quartiles_witness:
  "forecast_precip (compact_summary (Some [2, 2]) [1, 3]) = Some 2
   \<and> map_option p25 (historical_stats (compact_summary (Some [2, 2]) [1, 3])) = Some (3 / 2)
   \<and> map_option p75 (historical_stats (compact_summary (Some [2, 2]) [1, 3])) = Some (5 / 2)
   \<and> (0::real) \<le> 2 \<and> (3 / 2 :: real) \<le> 2 \<and> (2::real) \<le> 5 / 2"
  using display_nonneg_within_quartiles [of "Some [2, 2]" "[1, 3]" 2]
  by (simp add: blend_defs power2_eq_square)

text \<open>
  C9, as stated, fails in its second half: for the series \<open>[8, 0, 0, 0, 0, 0, 0, 0]\<close>
  and an empty day window the statistics are \<^term>\<open>None\<close>, the raw forecast is 0, and
  the blended value is \<open>8/9\<close>, because the prior mean falls back to the mean of the
  whole series.
\<close>

theorem empty_window_not_raw:
  "historical_stats (compact_summary (Some [8, 0, 0, 0, 0, 0, 0, 0]) []) = None
   \<and> forecast_raw (compact_summary (Some [8, 0, 0, 0, 0, 0, 0, 0]) []) = Some 0
   \<and> historical_avg (compact_summary (Some [8, 0, 0, 0, 0, 0, 0, 0]) []) = Some 1
   \<and> forecast_adjusted (compact_summary (Some [8, 0, 0, 0, 0, 0, 0, 0]) []) = Some (8 / 9)
   \<and> forecast_adjusted (compact_summary (Some [8, 0, 0, 0, 0, 0, 0, 0]) [])
        \<noteq> forecast_raw (compact_summary (Some [8, 0, 0, 0, 0, 0, 0, 0]) [])"
  by (simp add: blend_defs power2_eq_square)

text \<open>
  C9, amended. With an empty day window the statistics entry is \<^term>\<open>None\<close>; the prior
  mean is then the mean \<open>p\<close> of the whole series, and the blended value is the
  inverse-variance mean \<open>(f / v + p / 1) / (1 / v + 1 / 1)\<close> of the raw forecast \<open>f\<close> and
  \<open>p\<close>, floored at zero, where \<open>v\<close> is the recent variance when it exists and is
  positive and 1 otherwise. Without a series there is neither a forecast nor a blend.
\<close>

theorem empty_window_blend:
  assumes "vals \<noteq> []"
  shows "hist_stats_from_array [] = None
     \<and> historical_stats (compact_summary (Some vals) []) = None
     \<and> historical_avg (compact_summary (Some vals) []) = Some (series_mean vals)
     \<and> forecast_raw (compact_summary (Some vals) []) = Some (series_mean (tail 7 vals))
     \<and> forecast_adjusted (compact_summary (Some vals) []) =
         Some (max 0
           ((series_mean (tail 7 vals)
               / (case recent_var (Some vals) of Some v \<Rightarrow> if v > 0 then v else 1 | None \<Rightarrow> 1)
             + series_mean vals / 1)
            / (1 / (case recent_var (Some vals) of Some v \<Rightarrow> if v > 0 then v else 1 | None \<Rightarrow> 1)
               + 1 / 1)))
     \<and> forecast_adjusted (compact_summary None []) = None
     \<and> forecast_adjusted (compact_summary (Some []) []) = None"
  using assms
  by (simp add: compact_summary_def adjusted_prec_def weight_prior_def prior_mean_def
      hist_stats_from_array_def forecast_recent_mean_def hist_avg_def prior_var_def
      compute_shrunk_def Let_def max_def split: option.splits)

theorem empty_window_blend_witness:
  "[8, 0, 0, 0, 0, 0, 0, 0 :: real] \<noteq> []
   \<and> historical_stats (compact_summary (Some [8, 0, 0, 0, 0, 0, 0, 0]) []) = None
   \<and> recent_var (Some [8, 0, 0, 0, 0, 0, 0, 0]) = Some 8
   \<and> forecast_adjusted (compact_summary (Some [8, 0, 0, 0, 0, 0, 0, 0]) []) = Some (8 / 9)"
  using empty_window_blend [of "[8, 0, 0, 0, 0, 0, 0, 0]"]
  by (simp add: blend_defs power2_eq_square)

section \<open>The Kelvin heuristic\<close>

text \<open>
  C10. After the fetch and \<^verbatim>\<open>dropna\<close>, when the mean of the series exceeds 200 the
  run subtracts 273.15 from every value, otherwise it leaves the series as it is; and
  the series so prepared is the one that fitting, forecasting and the exceedance
  computation work on.
\<close>

theorem kelvin_heuristic:
  assumes "numeric_rows (dropna fetched) = Some df"
  shows "(df \<noteq> [] \<and> series_mean (map snd df) > 200
            \<longrightarrow> main_prepare fetched = Inr (map (\<lambda>(d, v). (d, v - 273.15)) df))
     \<and> (df = [] \<or> series_mean (map snd df) \<le> 200 \<longrightarrow> main_prepare fetched = Inr df)
     \<and> (fetch_power_point r = Inr fetched
            \<longrightarrow> forecast_power_main L z r override today forecast_days threshold
              = main_after_prepare L z
                  (if df \<noteq> [] \<and> series_mean (map snd df) > 200
                   then map (\<lambda>(d, v). (d, v - 273.15)) df else df)
                  override today forecast_days threshold)"
  using assms
  by (auto simp: main_prepare_def np_mean_def series_mean_def forecast_power_main_def)

theorem kelvin_heuristic_witness:
  "numeric_rows (dropna [(0, Num 300), (1, NaN), (2, Num 310)]) = Some [(0, 300), (2, 310)]
   \<and> series_mean (map snd [(0::int, 300), (2, 310)]) = 305
   \<and> main_prepare [(0, Num 300), (1, NaN), (2, Num 310)] = Inr [(0, 300 - 273.15), (2, 310 - 273.15)]
   \<and> numeric_rows (dropna [(0, Num 30), (1, Num 31)]) = Some [(0, 30), (1, 31)]
   \<and> main_prepare [(0, Num 30), (1, Num 31)] = Inr [(0, 30), (1, 31)]"
  using kelvin_heuristic [of "[(0, Num 300), (1, NaN), (2, Num 310)]" "[(0, 300), (2, 310)]"]
    kelvin_heuristic [of "[(0, Num 30), (1, Num 31)]" "[(0, 30), (1, 31)]"]
  by (simp add: numeric_rows_def dropna_def series_mean_def)

section \<open>The fitting chain\<close>

lemma forecast_sarimax_rows:
  "1 \<le> steps \<Longrightarrow>
     forecast_sarimax res start steps = Inr (zip (date_range start steps) (map res [0..<steps]))"
  by (simp add: forecast_sarimax_def)

lemma forecast_sarimax_no_steps: "forecast_sarimax res start 0 = Inl ValueError"
  by (simp add: forecast_sarimax_def)

lemma main_forecast_sarimax:
  "fit_sarimax L (map snd df) = Inr res \<Longrightarrow>
     main_forecast L z df start days =
       (if days = 0 then Inl ValueError
        else Inr (zip (date_range start days) (map res [0..<days]), z))"
  by (simp add: main_forecast_def forecast_sarimax_def)



section \<open>Exceedance probabilities\<close>

lemma fraction_above_bounds: "0 \<le> fraction_above T xs \<and> fraction_above T xs \<le> 1"
proof -
  have "length (filter (\<lambda>x. x > T) xs) \<le> length xs" by simp
  then have "real (length (filter (\<lambda>x. x > T) xs)) \<le> real (length xs)" by simp
  then show ?thesis
    by (cases "xs = []") (simp_all add: fraction_above_def divide_le_eq_1)
qed

lemma bool_mean_exceed:
  "xs \<noteq> [] \<Longrightarrow> bool_mean (map (\<lambda>x. x > T) xs) = Some (fraction_above T xs)"
  by (simp add: bool_mean_def fraction_above_def filter_map comp_def)

lemma random_normal_value:
  assumes "\<forall>(l, s) \<in> set ls. 0 \<le> s"
  shows "random_normal z N ls =
     Inr (map (\<lambda>i. map (\<lambda>j. fst (ls ! i) + snd (ls ! i) * z (i * N + j)) [0..<N]) [0..<length ls])"
proof -
  have "\<not> list_ex (\<lambda>(loc, scale). scale < 0) ls"
    using assms by (auto simp: list_ex_iff)
  then show ?thesis by (simp add: random_normal_def)
qed

lemma random_normal_shape:
  assumes "random_normal z N ls = Inr sim"
  shows "length sim = length ls \<and> (\<forall>row \<in> set sim. length row = N)"
  using assms by (auto simp: random_normal_def split: if_splits)

lemma exceedance_of_matrix:
  assumes "sim \<noteq> []" and "\<forall>row \<in> set sim. length row = N" and "0 < N"
  shows "map bool_mean (exceed sim T) = map (\<lambda>row. Some (fraction_above T row)) sim
     \<and> bool_mean (concat (exceed sim T)) = Some (fraction_above T (concat sim))"
proof -
  have rows: "\<forall>row \<in> set sim. row \<noteq> []" using assms by auto
  then have a: "map bool_mean (exceed sim T) = map (\<lambda>row. Some (fraction_above T row)) sim"
    by (simp add: exceed_def bool_mean_exceed)
  obtain r rest where sim: "sim = r # rest" using assms(1) by (cases sim) auto
  then have "r \<noteq> []" using rows by simp
  then have ne: "concat sim \<noteq> []" using sim by simp
  have "concat (exceed sim T) = map (\<lambda>x. x > T) (concat sim)"
    by (simp add: exceed_def map_concat)
  then show ?thesis using a ne by (simp add: bool_mean_exceed)
qed

lemma length_concat_rows:
  "\<forall>row \<in> set sim. length row = N \<Longrightarrow> length (concat sim) = length sim * N"
  by (induction sim) simp_all

lemma np_std_nonneg: "0 \<le> np_std xs"
proof -
  have "0 \<le> (\<Sum>x\<leftarrow>xs. (x - series_mean xs)\<^sup>2)"
    by (rule sum_list_nonneg) auto
  then show ?thesis by (simp add: np_std_def Let_def)
qed

lemma random_normal_const:
  assumes "\<forall>(l, s) \<in> set ls. 0 \<le> s"
  shows "random_normal (\<lambda>k. c) N ls = Inr (map (\<lambda>(l, s). replicate N (l + s * c)) ls)"
proof -
  have "map (\<lambda>i. map (\<lambda>j. fst (ls ! i) + snd (ls ! i) * c) [0..<N]) [0..<length ls]
      = map (\<lambda>(l, s). replicate N (l + s * c)) ls"
    by (rule nth_equalityI) (simp_all add: map_replicate_const case_prod_beta)
  then show ?thesis using random_normal_value [OF assms, of "\<lambda>k. c" N] by simp
qed

lemma random_normal_cong:
  assumes "\<forall>k < length ls * N. z1 k = z2 k"
  shows "random_normal z1 N ls = random_normal z2 N ls"
proof -
  have "\<And>i j. i < length ls \<Longrightarrow> j < N \<Longrightarrow> z1 (i * N + j) = z2 (i * N + j)"
  proof -
    fix i j assume i: "i < length ls" and j: "j < N"
    have "i * N + j < Suc i * N" using j by simp
    also have "\<dots> \<le> length ls * N" using i by (intro mult_le_mono1) simp
    finally show "z1 (i * N + j) = z2 (i * N + j)" using assms by blast
  qed
  then show ?thesis by (simp add: random_normal_def)
qed

text \<open>
  C2. For a non-empty forecast path (with \<open>lower \<le> upper\<close> on every day) and every
  threshold, the simulation succeeds with one row of \<open>Nsim = 2000\<close> samples per day;
  the per-day probability is the fraction of that row above the threshold, the pooled
  probability is the fraction of all \<open>days * 2000\<close> cells above it, and both lie in
  \<open>[0, 1]\<close>. The same holds in the multivariate script. For an empty path the pooled
  probability is NaN.
\<close>

theorem exceedance_probabilities:
  assumes "df_fore \<noteq> []" and "\<forall>(d, r) \<in> set df_fore. lower r \<le> upper r"
    and "mv_fore \<noteq> []"
  shows "(\<exists>sim. random_normal z Nsim (map (\<lambda>(d, r). (mean r, row_std r)) df_fore) = Inr sim
        \<and> length sim = length df_fore \<and> (\<forall>row \<in> set sim. length row = Nsim)
        \<and> length (concat sim) = length df_fore * Nsim
        \<and> main_exceedance z df_fore T =
            Inr \<lparr>prob_per_day = map (\<lambda>row. Some (fraction_above T row)) sim,
                 overall_prob = Some (fraction_above T (concat sim))\<rparr>
        \<and> (\<forall>row \<in> set sim. 0 \<le> fraction_above T row \<and> fraction_above T row \<le> 1)
        \<and> 0 \<le> fraction_above T (concat sim) \<and> fraction_above T (concat sim) \<le> 1)
     \<and> (\<exists>sims. simulate_uncertainty z mv_fore residuals 2000 = Inr sims
        \<and> length sims = length mv_fore \<and> (\<forall>row \<in> set sims. length row = 2000)
        \<and> length (concat sims) = length mv_fore * 2000
        \<and> mv_exceedance z mv_fore residuals T =
            Inr \<lparr>prob_per_day = map (\<lambda>row. Some (fraction_above T row)) sims,
                 overall_prob = Some (fraction_above T (concat sims))\<rparr>
        \<and> (\<forall>row \<in> set sims. 0 \<le> fraction_above T row \<and> fraction_above T row \<le> 1)
        \<and> 0 \<le> fraction_above T (concat sims) \<and> fraction_above T (concat sims) \<le> 1)
     \<and> main_exceedance z [] T = Inr \<lparr>prob_per_day = [], overall_prob = None\<rparr>
     \<and> mv_exceedance z [] residuals T = Inr \<lparr>prob_per_day = [], overall_prob = None\<rparr>"
proof -
  let ?ls = "map (\<lambda>(d, r). (mean r, row_std r)) df_fore"
  have "\<forall>(l, s) \<in> set ?ls. 0 \<le> s"
    using assms(2) by (auto simp: row_std_def)
  from random_normal_value [OF this, of z Nsim]
  obtain sim where sim: "random_normal z Nsim ?ls = Inr sim" by blast
  from random_normal_shape [OF sim] have shape: "length sim = length df_fore"
    "\<forall>row \<in> set sim. length row = Nsim" by simp_all
  have ne: "sim \<noteq> []" using shape(1) assms(1) by auto
  have ex: "map bool_mean (exceed sim T) = map (\<lambda>row. Some (fraction_above T row)) sim"
    "bool_mean (concat (exceed sim T)) = Some (fraction_above T (concat sim))"
    using exceedance_of_matrix [OF ne shape(2)] by (simp_all add: Nsim_def)
  have first: "main_exceedance z df_fore T =
      Inr \<lparr>prob_per_day = map (\<lambda>row. Some (fraction_above T row)) sim,
           overall_prob = Some (fraction_above T (concat sim))\<rparr>"
    using assms(1) sim ex by (simp add: main_exceedance_def Let_def)
  let ?std = "if length residuals = 0 then 1.5 else np_std residuals"
  let ?ms = "map (\<lambda>(d, m). (m, ?std)) mv_fore"
  have "0 \<le> ?std" by (simp add: np_std_nonneg)
  then have "\<forall>(l, s) \<in> set ?ms. 0 \<le> s" by auto
  from random_normal_value [OF this, of z 2000]
  obtain sims where sims: "random_normal z 2000 ?ms = Inr sims" by blast
  then have su: "simulate_uncertainty z mv_fore residuals 2000 = Inr sims"
    by (simp add: simulate_uncertainty_def Let_def)
  from random_normal_shape [OF sims] have shape2: "length sims = length mv_fore"
    "\<forall>row \<in> set sims. length row = 2000" by simp_all
  have ne2: "sims \<noteq> []" using shape2(1) assms(3) by auto
  have ex2: "map bool_mean (exceed sims T) = map (\<lambda>row. Some (fraction_above T row)) sims"
    "bool_mean (concat (exceed sims T)) = Some (fraction_above T (concat sims))"
    using exceedance_of_matrix [OF ne2 shape2(2)] by simp_all
  have second: "mv_exceedance z mv_fore residuals T =
      Inr \<lparr>prob_per_day = map (\<lambda>row. Some (fraction_above T row)) sims,
           overall_prob = Some (fraction_above T (concat sims))\<rparr>"
    using su ex2 by (simp add: mv_exceedance_def Let_def)
  have empty: "main_exceedance z [] T = Inr \<lparr>prob_per_day = [], overall_prob = None\<rparr>"
    "mv_exceedance z [] residuals T = Inr \<lparr>prob_per_day = [], overall_prob = None\<rparr>"
    by (simp_all add: main_exceedance_def mv_exceedance_def simulate_uncertainty_def
        random_normal_def exceed_def bool_mean_def Let_def)
  show ?thesis
    using sim shape first su shape2 second empty fraction_above_bounds
      length_concat_rows [OF shape(2)] length_concat_rows [OF shape2(2)]
    by simp
qed

theorem exceedance_probabilities_witness:
  "[(0::int, \<lparr>mean = 0, lower = - 1.96, upper = 1.96\<rparr>)] \<noteq> []
   \<and> lower \<lparr>mean = 0, lower = - 1.96, upper = 1.96\<rparr> \<le> upper \<lparr>mean = 0, lower = - 1.96, upper = 1.96\<rparr>
   \<and> [(Some (0::int), 0::real)] \<noteq> []
   \<and> main_exceedance (\<lambda>k. 0) [(0, \<lparr>mean = 0, lower = - 1.96, upper = 1.96\<rparr>)] (- 1)
        = Inr \<lparr>prob_per_day = [Some 1], overall_prob = Some 1\<rparr>
   \<and> mv_exceedance (\<lambda>k. 0) [(Some 0, 0)] [] 1
        = Inr \<lparr>prob_per_day = [Some 0], overall_prob = Some 0\<rparr>"
  using exceedance_probabilities [of "[(0, \<lparr>mean = 0, lower = - 1.96, upper = 1.96\<rparr>)]"
      "[(Some 0, 0)]" "\<lambda>k. 0" "- 1" "[]"]
  by (simp add: main_exceedance_def mv_exceedance_def simulate_uncertainty_def row_std_def
      random_normal_const exceed_def bool_mean_def Let_def Nsim_def)

section \<open>The forecast path\<close>

lemma date_range_nth: "k < n \<Longrightarrow> date_range s n ! k = s + int k"
  by (simp add: date_range_def)

lemma length_date_range: "length (date_range s n) = n"
  by (simp add: date_range_def)

lemma date_range_increasing: "sorted_wrt (<) (date_range s n)"
  by (simp add: date_range_def sorted_wrt_map)

lemma sorted_le_last: "sorted xs \<Longrightarrow> x \<in> set xs \<Longrightarrow> x \<le> last (xs::int list)"
  by (induction xs) auto

lemma last_sorted_Max:
  assumes "sorted xs" and "xs \<noteq> []"
  shows "last xs = Max (set (xs::int list))"
proof -
  have "Max (set xs) = last xs"
    using assms by (intro Max_eqI) (auto simp: sorted_le_last)
  then show ?thesis by simp
qed

lemma future_after_history:
  assumes "dates \<noteq> []" and "start = Max (set dates) + 1"
  shows "filter (\<lambda>(ds, r). start \<le> ds \<and> ds \<le> start + (int steps - 1))
           (map (\<lambda>ds. (ds, predict ds)) (make_future_dataframe dates steps))
         = map (\<lambda>ds. (ds, predict ds)) (date_range start steps)"
proof -
  let ?hs = "remdups (sort dates)"
  have ne: "?hs \<noteq> []" using assms(1) by (metis set_empty set_remdups set_sort)
  have srt: "sorted ?hs" by simp
  have lst: "last ?hs = Max (set dates)"
    using last_sorted_Max [OF srt ne] by simp
  have old: "\<forall>x \<in> set ?hs. \<not> start \<le> x"
    using assms by (auto simp: Max_ge_iff dest!: Max_ge [rotated])
  have new: "\<forall>x \<in> set (date_range start steps). start \<le> x \<and> x \<le> start + (int steps - 1)"
    by (auto simp: date_range_def)
  have "filter (\<lambda>(ds, r). start \<le> ds \<and> ds \<le> start + (int steps - 1))
          (map (\<lambda>ds. (ds, predict ds)) ?hs) = []"
    using old by (auto simp: filter_empty_conv)
  moreover have "filter (\<lambda>(ds, r). start \<le> ds \<and> ds \<le> start + (int steps - 1))
          (map (\<lambda>ds. (ds, predict ds)) (date_range start steps))
        = map (\<lambda>ds. (ds, predict ds)) (date_range start steps)"
    using new by (auto simp: filter_id_conv)
  ultimately show ?thesis
    using ne lst assms(2) by (simp add: make_future_dataframe_def Let_def)
qed

text \<open>
  \<^verbatim>\<open>forecast_prophet\<close> cuts the window \<open>[start, start + steps - 1]\<close> out of a future
  frame that ends \<open>steps\<close> days after the history: its table has \<open>steps\<close> rows from
  \<open>start\<close> on when \<open>start\<close> is the day after the last historical date, whatever the
  generator delivers.
\<close>

lemma forecast_prophet_dates:
  assumes "Prophet L = Some fit" and "2 \<le> length history_df"
    and "fit history_df = Inr predict"
    and "start = Max (set (map fst history_df)) + 1"
  shows "\<exists>path z'. forecast_prophet L z history_df start steps = Inr (path, z')
            \<and> map fst path = date_range start steps"
proof -
  have ne: "map fst history_df \<noteq> []" using assms(2) by auto
  show ?thesis
    using assms(1,2,3)
      future_after_history [OF ne assms(4), of steps
        "fst (predict z (make_future_dataframe (map fst history_df) steps))"]
    by (simp add: forecast_prophet_def Let_def comp_def)
qed

lemma collect_map_Inr: "collect (map Inr vs) = Inr vs"
  by (induction vs) simp_all

lemma collect_map_Inr_fun: "collect (map (\<lambda>x. Inr (g x)) xs) = Inr (map g xs)"
  using collect_map_Inr [of "map g xs"] by (simp add: comp_def)

lemma lag_value_nonempty:
  "vals \<noteq> [] \<Longrightarrow> lag_value vals lag =
     Inr (if lag \<le> length vals \<and> 0 < lag then vals ! (length vals - lag) else vals ! 0)"
  by (simp add: lag_value_def)

lemma last_value_nonempty: "vals \<noteq> [] \<Longrightarrow> last_value vals = Inr (last vals)"
  by (simp add: last_value_def)

lemma col_values_nonempty: "rows history \<noteq> [] \<Longrightarrow> col_values history col \<noteq> []"
  by (simp add: col_values_def)

lemma build_row_value:
  assumes "rows history \<noteq> []"
  shows "build_row history cols lags =
     Inr (concat (map (\<lambda>col.
        map (\<lambda>lag. (Lag col lag,
               if lag \<le> length (col_values history col) \<and> 0 < lag
               then col_values history col ! (length (col_values history col) - lag)
               else col_values history col ! 0)) [1..<Suc lags]
        @ [(Curr col, last (col_values history col))]) cols))"
proof -
  have one: "\<And>col. (let vals = col_values history col in
         map (\<lambda>lag. case lag_value vals lag of Inl e \<Rightarrow> Inl e | Inr v \<Rightarrow> Inr (Lag col lag, v))
             [1..<Suc lags]
         @ [case last_value vals of Inl e \<Rightarrow> Inl e | Inr v \<Rightarrow> Inr (Curr col, v)])
      = map Inr (map (\<lambda>lag. (Lag col lag,
               if lag \<le> length (col_values history col) \<and> 0 < lag
               then col_values history col ! (length (col_values history col) - lag)
               else col_values history col ! 0)) [1..<Suc lags]
        @ [(Curr col, last (col_values history col))])"
    by (simp only: Let_def lag_value_nonempty [OF col_values_nonempty [OF assms]]
        last_value_nonempty [OF col_values_nonempty [OF assms]] sum.case map_append list.map
        map_map comp_def)
  have "concat (map (\<lambda>col. (let vals = col_values history col in
         map (\<lambda>lag. case lag_value vals lag of Inl e \<Rightarrow> Inl e | Inr v \<Rightarrow> Inr (Lag col lag, v))
             [1..<Suc lags]
         @ [case last_value vals of Inl e \<Rightarrow> Inl e | Inr v \<Rightarrow> Inr (Curr col, v)])) cols)
     = map Inr (concat (map (\<lambda>col.
        map (\<lambda>lag. (Lag col lag,
               if lag \<le> length (col_values history col) \<and> 0 < lag
               then col_values history col ! (length (col_values history col) - lag)
               else col_values history col ! 0)) [1..<Suc lags]
        @ [(Curr col, last (col_values history col))]) cols))"
    by (simp only: one map_concat map_map comp_def)
  then show ?thesis
    by (simp only: build_row_def collect_map_Inr)
qed

lemma build_row_ok:
  assumes "rows history \<noteq> []"
  shows "\<exists>row. build_row history cols lags = Inr row
            \<and> set (feature_names cols lags) \<subseteq> fst ` set row"
proof -
  let ?row = "concat (map (\<lambda>col.
        map (\<lambda>lag. (Lag col lag,
               if lag \<le> length (col_values history col) \<and> 0 < lag
               then col_values history col ! (length (col_values history col) - lag)
               else col_values history col ! 0)) [1..<Suc lags]
        @ [(Curr col, last (col_values history col))]) cols)"
  have "map fst ?row = concat (map (\<lambda>col. map (\<lambda>lag. Lag col lag) [1..<Suc lags] @ [Curr col]) cols)"
    by (simp only: map_concat map_map comp_def map_append list.map fst_conv)
  then have "set (map fst ?row) = set (feature_names cols lags)"
    by (simp only: feature_names_def set_append set_concat set_map) auto
  then have "set (feature_names cols lags) \<subseteq> fst ` set ?row"
    by (simp only: set_map)
  then show ?thesis
    using build_row_value [OF assms, of cols lags] by blast
qed

lemma feature_vector_ok:
  assumes "set features_cols \<subseteq> fst ` set row"
  shows "\<exists>x. feature_vector row features_cols = Inr x"
proof -
  have "\<forall>c \<in> set features_cols. \<exists>v. map_of row c = Some v"
    using assms by (metis map_of_eq_None_iff not_None_eq subsetD)
  then have "map (\<lambda>c. case map_of row c of None \<Rightarrow> Inl KeyError | Some v \<Rightarrow> Inr v) features_cols
      = map (\<lambda>c. Inr (case map_of row c of None \<Rightarrow> None | Some v \<Rightarrow> v)) features_cols"
    by (intro map_cong) auto
  then have "feature_vector row features_cols
      = Inr (map (\<lambda>c. case map_of row c of None \<Rightarrow> None | Some v \<Rightarrow> v) features_cols)"
    by (simp only: feature_vector_def collect_map_Inr_fun)
  then show ?thesis by blast
qed

lemma new_row_ok:
  assumes "rows history \<noteq> []"
  shows "\<exists>nr. new_row history cols ypred = Inr nr"
proof -
  have "map (\<lambda>col. if col = ''T2M'' then Inr (col, Some ypred)
                         else case last_value (col_values history col) of
                                Inl e \<Rightarrow> Inl e
                              | Inr v \<Rightarrow> Inr (col, v)) cols
      = map (\<lambda>col. Inr (if col = ''T2M'' then (col, Some ypred)
                         else (col, last (col_values history col)))) cols"
    using assms by (intro map_cong) (simp_all add: last_value_nonempty col_values_nonempty)
  then have "new_row history cols ypred
      = Inr (map (\<lambda>col. if col = ''T2M'' then (col, Some ypred)
                         else (col, last (col_values history col))) cols)"
    by (simp only: new_row_def collect_map_Inr_fun)
  then show ?thesis by blast
qed

lemma forecast_loop_dates:
  assumes "rows history \<noteq> []"
    and "set features_cols \<subseteq> set (feature_names cols lags)"
  shows "\<exists>results. forecast_loop n step model cols (Some ld) features_cols lags history = Inr results
            \<and> map fst results = map (\<lambda>k. Some (ld + int step + int k)) [0..<n]"
  using assms(1)
proof (induction n arbitrary: step history)
  case 0
  then show ?case by simp
next
  case (Suc n)
  from build_row_ok [OF Suc.prems, of cols lags] obtain row where
    row: "build_row history cols lags = Inr row" "set (feature_names cols lags) \<subseteq> fst ` set row"
    by blast
  from feature_vector_ok [of features_cols row] assms(2) row(2) obtain x where
    x: "feature_vector row features_cols = Inr x" by blast
  from new_row_ok [OF Suc.prems, of cols "model x"] obtain nr where
    nr: "new_row history cols (model x) = Inr nr" by blast
  let ?h = "history\<lparr>rows := rows history @ [(ld + int step, nr)]\<rparr>"
  have "rows ?h \<noteq> []" by simp
  from Suc.IH [OF this, of "Suc step"] obtain rest where
    rest: "forecast_loop n (Suc step) model cols (Some ld) features_cols lags ?h = Inr rest"
      "map fst rest = map (\<lambda>k. Some (ld + int (Suc step) + int k)) [0..<n]" by blast
  have "map (\<lambda>k. Some (ld + int step + int k)) [0..<Suc n]
      = Some (ld + int step) # map (\<lambda>k. Some (ld + int (Suc step) + int k)) [0..<n]"
    by (simp add: upt_conv_Cons map_Suc_upt [symmetric] del: upt_Suc)
  then show ?case
    using row(1) x nr rest by (simp add: Let_def del: upt_Suc)
qed

lemma iterative_forecast_dates:
  assumes "rows df_hist \<noteq> []"
    and "set features_cols \<subseteq> set (feature_names (columns df_hist) lags)"
    and "1 \<le> forecast_days"
  shows "\<exists>path. iterative_forecast model df_hist forecast_days features_cols lags = Inr path
            \<and> map fst path
                = map Some (date_range (Max (set (map fst (rows df_hist))) + 1) forecast_days)"
proof -
  obtain d ds where dd: "map fst (rows df_hist) = d # ds"
    using assms(1) by (cases "map fst (rows df_hist)") auto
  have "Max (set (d # ds)) = fold max ds d" by (rule Max.set_eq_fold)
  then have im: "index_max df_hist = Some (Max (set (map fst (rows df_hist))))"
    using dd by (simp only: index_max_def list.case)
  let ?ld = "Max (set (map fst (rows df_hist)))"
  from forecast_loop_dates [OF assms(1,2), of forecast_days 1 model ?ld] obtain results where
    r: "forecast_loop forecast_days 1 model (columns df_hist) (Some ?ld) features_cols lags df_hist
          = Inr results"
      "map fst results = map (\<lambda>k. Some (?ld + int 1 + int k)) [0..<forecast_days]" by blast
  have "results \<noteq> []" using r(2) assms(3) by (cases results) auto
  then show ?thesis
    using r im by (simp add: iterative_forecast_def date_range_def comp_def)
qed

text \<open>
  C1, as stated, fails on the start date. Without an override date the forecast starts
  the day after the day of the run, not the day after the last historical date: with
  SARIMAX fitted on a history of the days 0 and 1, today being day 9 and a horizon of
  3 days, the path covers the days 10, 11 and 12, and the day after the last historical
  date is day 2.
\<close>

theorem default_start_is_tomorrow:
  "(1::nat) \<le> 3
   \<and> forecast_start_of None 9 = 10
   \<and> map_sum id (map fst \<circ> fst)
        (main_forecast
           \<lparr>SARIMAX = Some (\<lambda>s order seasonal. Inr (\<lambda>k. \<lparr>mean = 1, lower = 0, upper = 2\<rparr>)),
            pm = None, Prophet = None\<rparr>
           (\<lambda>k. 0) [(0, 1), (1, 2)] (forecast_start_of None 9) 3)
       = Inr [10, 11, 12]
   \<and> Max (set (map fst [(0::int, 1::real), (1, 2)])) + 1 = 2"
  by (simp add: forecast_start_of_def main_forecast_def fit_sarimax_def select_order_def
      forecast_sarimax_def date_range_def Let_def upt_conv_Cons)

text \<open>
  C1, amended. For a horizon of at least one day: on the SARIMAX path the forecast has
  exactly \<open>forecast_days\<close> entries whose dates are the contiguous, strictly increasing
  days from \<open>forecast_start\<close> on, \<open>forecast_start\<close> being the override date or else the
  day after today; on the multivariate path, with a history that is not empty, it has
  exactly \<open>forecast_days\<close> entries whose dates are the contiguous days from the day after
  the last historical date on (that script takes no override).
\<close>

theorem forecast_path_dates:
  assumes "1 \<le> forecast_days"
  shows "(\<exists>path. forecast_sarimax res start forecast_days = Inr path
          \<and> length path = forecast_days
          \<and> map fst path = date_range start forecast_days)
     \<and> (\<forall>res. fit_sarimax L (map snd df) = Inr res \<longrightarrow>
          (\<exists>path. main_forecast L z df (forecast_start_of override today) forecast_days
                     = Inr (path, z)
             \<and> length path = forecast_days
             \<and> map fst path = date_range (forecast_start_of override today) forecast_days))
     \<and> forecast_start_of (Some d) today = d \<and> forecast_start_of None today = today + 1
     \<and> (rows df_hist \<noteq> [] \<and> set features_cols \<subseteq> set (feature_names (columns df_hist) lags) \<longrightarrow>
          (\<exists>path. iterative_forecast model df_hist forecast_days features_cols lags = Inr path
             \<and> length path = forecast_days
             \<and> map fst path
                 = map Some (date_range (Max (set (map fst (rows df_hist))) + 1) forecast_days)))
     \<and> length (date_range start forecast_days) = forecast_days
     \<and> (\<forall>k < forecast_days. date_range start forecast_days ! k = start + int k)
     \<and> sorted_wrt (<) (date_range start forecast_days)"
proof -
  have a: "\<And>res start. \<exists>path. forecast_sarimax res start forecast_days = Inr path
          \<and> length path = forecast_days
          \<and> map fst path = date_range start forecast_days"
    using assms by (simp add: forecast_sarimax_def length_date_range)
  have b: "\<forall>res. fit_sarimax L (map snd df) = Inr res \<longrightarrow>
          (\<exists>path. main_forecast L z df (forecast_start_of override today) forecast_days
                     = Inr (path, z)
             \<and> length path = forecast_days
             \<and> map fst path = date_range (forecast_start_of override today) forecast_days)"
    using assms by (simp add: main_forecast_def forecast_sarimax_def length_date_range)
  have d: "rows df_hist \<noteq> [] \<and> set features_cols \<subseteq> set (feature_names (columns df_hist) lags) \<longrightarrow>
          (\<exists>path. iterative_forecast model df_hist forecast_days features_cols lags = Inr path
             \<and> length path = forecast_days
             \<and> map fst path
                 = map Some (date_range (Max (set (map fst (rows df_hist))) + 1) forecast_days))"
  proof (intro impI)
    assume h: "rows df_hist \<noteq> [] \<and> set features_cols \<subseteq> set (feature_names (columns df_hist) lags)"
    from iterative_forecast_dates [of df_hist features_cols lags forecast_days model] h assms
    obtain path where p: "iterative_forecast model df_hist forecast_days features_cols lags = Inr path"
      "map fst path = map Some (date_range (Max (set (map fst (rows df_hist))) + 1) forecast_days)"
      by blast
    from p(2) have "length path = forecast_days"
      by (metis length_map length_date_range)
    with p show "\<exists>path. iterative_forecast model df_hist forecast_days features_cols lags = Inr path
             \<and> length path = forecast_days
             \<and> map fst path
                 = map Some (date_range (Max (set (map fst (rows df_hist))) + 1) forecast_days)"
      by blast
  qed
  show ?thesis
    using a [of res start] b d
    by (simp add: forecast_start_of_def length_date_range date_range_nth date_range_increasing)
qed

theorem forecast_path_dates_witness:
  "(1::nat) \<le> 2
   \<and> forecast_sarimax (\<lambda>k. \<lparr>mean = 1, lower = 0, upper = 2\<rparr>) 10 2
       = Inr [(10, \<lparr>mean = 1, lower = 0, upper = 2\<rparr>), (11, \<lparr>mean = 1, lower = 0, upper = 2\<rparr>)]
   \<and> map_sum id (map fst \<circ> fst)
        (main_forecast
           \<lparr>SARIMAX = Some (\<lambda>s order seasonal. Inr (\<lambda>k. \<lparr>mean = 1, lower = 0, upper = 2\<rparr>)),
            pm = None, Prophet = None\<rparr>
           (\<lambda>k. 0) [(0, 1), (1, 2)] (forecast_start_of (Some 5) 9) 2)
       = Inr [5, 6]
   \<and> iterative_forecast (\<lambda>x. 20)
        \<lparr>columns = [''T2M''], rows = [(0, [(''T2M'', Some 25)]), (1, [(''T2M'', Some 26)])]\<rparr>
        2 (feature_names [''T2M''] 1) 1
       = Inr [(Some 2, 20), (Some 3, 20)]"
  using forecast_path_dates [where forecast_days = 2
      and res = "\<lambda>k. \<lparr>mean = 1, lower = 0, upper = 2\<rparr>" and start = 10
      and L = "\<lparr>SARIMAX = Some (\<lambda>s order seasonal. Inr (\<lambda>k. \<lparr>mean = 1, lower = 0, upper = 2\<rparr>)),
                pm = None, Prophet = None\<rparr>"
      and df = "[(0, 1), (1, 2)]" and z = "\<lambda>k. 0" and override = "Some 5" and today = 9
      and df_hist = "\<lparr>columns = [''T2M''], rows = [(0, [(''T2M'', Some 25)]), (1, [(''T2M'', Some 26)])]\<rparr>"
      and features_cols = "feature_names [''T2M''] 1" and lags = 1 and model = "\<lambda>x. 20"]
  by (simp add: forecast_sarimax_def date_range_def main_forecast_def fit_sarimax_def
      select_order_def forecast_start_of_def iterative_forecast_def index_max_def
      feature_names_def build_row_def feature_vector_def new_row_def col_values_def cell_of_def
      lag_value_def last_value_def Let_def upt_conv_Cons numeral_2_eq_2)

section \<open>Runs and the generator\<close>

lemma main_exceedance_cong:
  assumes "\<forall>k < length df_fore * Nsim. z1 k = z2 k"
  shows "main_exceedance z1 df_fore T = main_exceedance z2 df_fore T"
proof -
  have "length (map (\<lambda>(d, r). (mean r, row_std r)) df_fore) = length df_fore" by simp
  with assms have "random_normal z1 Nsim (map (\<lambda>(d, r). (mean r, row_std r)) df_fore)
      = random_normal z2 Nsim (map (\<lambda>(d, r). (mean r, row_std r)) df_fore)"
    by (intro random_normal_cong) simp
  then show ?thesis by (simp add: main_exceedance_def)
qed

lemma mv_exceedance_cong:
  assumes "\<forall>k < length mv_fore * 2000. z1 k = z2 k"
  shows "mv_exceedance z1 mv_fore residuals T = mv_exceedance z2 mv_fore residuals T"
proof -
  have "\<And>s. random_normal z1 2000 (map (\<lambda>(d, m). (m, s)) mv_fore)
      = random_normal z2 2000 (map (\<lambda>(d, m). (m, s)) mv_fore)"
    using assms by (intro random_normal_cong) simp
  then show ?thesis by (simp add: mv_exceedance_def simulate_uncertainty_def Let_def)
qed

text \<open>Whether the simulation raises does not depend on the generator.\<close>

lemma main_exceedance_raises:
  "map_sum id (\<lambda>ex. c) (main_exceedance za df_fore T) = map_sum id (\<lambda>ex. c) (main_exceedance zb df_fore T)"
  by (simp add: main_exceedance_def random_normal_def Let_def)

lemma mv_exceedance_returns: "\<exists>ex. mv_exceedance z mv_fore residuals T = Inr ex"
proof -
  let ?std = "if length residuals = 0 then 1.5 else np_std residuals"
  have "0 \<le> ?std" by (simp add: np_std_nonneg)
  then have "\<forall>(l, s) \<in> set (map (\<lambda>(d, m). (m, ?std)) mv_fore). 0 \<le> s" by auto
  from random_normal_value [OF this, of z 2000]
  show ?thesis by (simp add: mv_exceedance_def simulate_uncertainty_def Let_def)
qed

lemma forecast_loop_length:
  "forecast_loop n step model cols last_date features_cols lags history = Inr results
     \<Longrightarrow> length results = n"
proof (induction n arbitrary: step history results)
  case 0
  then show ?case by simp
next
  case (Suc n)
  then show ?case
    by (auto simp: Let_def split: sum.splits)
qed

lemma iterative_forecast_length:
  "iterative_forecast model df_hist n features_cols lags = Inr path \<Longrightarrow> length path = n"
  by (auto simp: iterative_forecast_def forecast_loop_length split: sum.splits if_splits)

text \<open>The run of the forecast-power script on the SARIMAX path, and the multivariate run
  up to the simulation.\<close>

lemma main_after_prepare_sarimax:
  assumes "fit_sarimax L (map snd df) = Inr res"
  shows "main_after_prepare_compact L z df sample df_prec override today n T =
     (if n = 0 then Inl ValueError
      else (let df_fore = zip (date_range (forecast_start_of override today) n) (map res [0..<n])
            in case main_exceedance z df_fore T of
                 Inl e \<Rightarrow> Inl e
               | Inr ex \<Rightarrow> Inr (df_fore, ex, main_compact sample df_prec df_fore)))"
  by (simp add: main_after_prepare_compact_def main_after_prepare_def
      main_forecast_sarimax [OF assms] Let_def split: sum.splits)

lemma map_sum_case_sum:
  "map_sum id f (case s of Inl e \<Rightarrow> Inl e | Inr x \<Rightarrow> Inr (g x)) = map_sum id (\<lambda>x. f (g x)) s"
  by (cases s) simp_all

lemma forecast_multivariate_main_cong:
  assumes "\<forall>k < n * 2000. z1 k = z2 k"
  shows "forecast_multivariate_main train z1 csv vars n lags T
       = forecast_multivariate_main train z2 csv vars n lags T"
proof -
  have key: "\<And>model df mv_fore residuals.
      iterative_forecast model df n (feature_names (columns df) lags) lags = Inr mv_fore
        \<Longrightarrow> mv_exceedance z1 mv_fore residuals T = mv_exceedance z2 mv_fore residuals T"
    using assms by (intro mv_exceedance_cong) (simp add: iterative_forecast_length)
  show ?thesis
  proof (cases train)
    case None
    then show ?thesis by (simp add: forecast_multivariate_main_def)
  next
    case (Some train_model)
    show ?thesis
    proof (cases "main_load csv vars")
      case (Inl e)
      then show ?thesis using Some by (simp add: forecast_multivariate_main_def)
    next
      case (Inr df)
      show ?thesis
      proof (cases "train_model df lags")
        case (Inl e)
        then show ?thesis using Some Inr by (simp add: forecast_multivariate_main_def)
      next
        case fitted: (Inr mr)
        show ?thesis
        proof (cases "iterative_forecast (fst mr) df n (feature_names (columns df) lags) lags")
          case (Inl e)
          then show ?thesis
            using Some Inr fitted
            by (simp add: forecast_multivariate_main_def case_prod_beta)
        next
          case path: (Inr mv_fore)
          from key [OF path] show ?thesis
            using Some Inr fitted path
            by (simp add: forecast_multivariate_main_def case_prod_beta)
        qed
      qed
    qed
  qed
qed

lemma forecast_multivariate_main_path:
  "map_sum id fst (forecast_multivariate_main train za csv vars n lags T)
     = map_sum id fst (forecast_multivariate_main train zb csv vars n lags T)"
proof (cases train)
  case None
  then show ?thesis by (simp add: forecast_multivariate_main_def)
next
  case (Some train_model)
  show ?thesis
  proof (cases "main_load csv vars")
    case (Inl e)
    then show ?thesis using Some by (simp add: forecast_multivariate_main_def)
  next
    case (Inr df)
    show ?thesis
    proof (cases "train_model df lags")
      case (Inl e)
      then show ?thesis using Some Inr by (simp add: forecast_multivariate_main_def)
    next
      case fitted: (Inr mr)
      show ?thesis
      proof (cases "iterative_forecast (fst mr) df n (feature_names (columns df) lags) lags")
        case (Inl e)
        then show ?thesis
          using Some Inr fitted
          by (simp add: forecast_multivariate_main_def case_prod_beta)
      next
        case path: (Inr mv_fore)
        obtain exa exb where "mv_exceedance za mv_fore (snd mr) T = Inr exa"
          "mv_exceedance zb mv_fore (snd mr) T = Inr exb"
          using mv_exceedance_returns by blast
        then show ?thesis
          using Some Inr fitted path
          by (simp add: forecast_multivariate_main_def case_prod_beta)
      qed
    qed
  qed
qed

text \<open>
  C3, as stated, fails: the scripts configure no seed, and the probabilities change with
  the variates that the unseeded generator delivers. For one forecast day with mean 0
  and standard deviation 1 and the threshold 1/2, a generator delivering 0 gives the
  probability 0 and one delivering 1 gives the probability 1.
\<close>

theorem exceedance_varies_with_generator:
  "main_exceedance (\<lambda>k. 0) [(0, \<lparr>mean = 0, lower = - 1.96, upper = 1.96\<rparr>)] (1 / 2)
        = Inr \<lparr>prob_per_day = [Some 0], overall_prob = Some 0\<rparr>
   \<and> main_exceedance (\<lambda>k. 1) [(0, \<lparr>mean = 0, lower = - 1.96, upper = 1.96\<rparr>)] (1 / 2)
        = Inr \<lparr>prob_per_day = [Some 1], overall_prob = Some 1\<rparr>
   \<and> main_exceedance (\<lambda>k. 0) [(0, \<lparr>mean = 0, lower = - 1.96, upper = 1.96\<rparr>)] (1 / 2)
        \<noteq> main_exceedance (\<lambda>k. 1) [(0, \<lparr>mean = 0, lower = - 1.96, upper = 1.96\<rparr>)] (1 / 2)
   \<and> mv_exceedance (\<lambda>k. 0) [(Some 0, 0)] [] (1 / 2)
        \<noteq> mv_exceedance (\<lambda>k. 1) [(Some 0, 0)] [] (1 / 2)"
  by (simp add: main_exceedance_def mv_exceedance_def simulate_uncertainty_def row_std_def
      random_normal_const exceed_def bool_mean_def Let_def Nsim_def)

text \<open>
  The forecast table of the Prophet path varies with the generator as well: the stand-in
  below takes its interval bounds from the first variate it is given.
\<close>

lemma prophet_path_varies_with_generator:
  "map_sum id fst (main_forecast \<lparr>SARIMAX = None, pm = None,
        Prophet = Some (\<lambda>h. Inr (\<lambda>z future. (\<lambda>d. \<lparr>mean = 1, lower = 1 - z 0, upper = 1 + z 0\<rparr>,
                                               \<lambda>k. z (Suc k))))\<rparr>
        (\<lambda>k. 1) [(0, 1), (1, 2)] 2 1)
     = Inr [(2, \<lparr>mean = 1, lower = 0, upper = 2\<rparr>)]
   \<and> map_sum id fst (main_forecast \<lparr>SARIMAX = None, pm = None,
        Prophet = Some (\<lambda>h. Inr (\<lambda>z future. (\<lambda>d. \<lparr>mean = 1, lower = 1 - z 0, upper = 1 + z 0\<rparr>,
                                               \<lambda>k. z (Suc k))))\<rparr>
        (\<lambda>k. 2) [(0, 1), (1, 2)] 2 1)
     = Inr [(2, \<lparr>mean = 1, lower = - 1, upper = 3\<rparr>)]"
  by (simp add: main_forecast_def fit_sarimax_def forecast_prophet_def make_future_dataframe_def
      date_range_def Let_def upt_conv_Cons)

text \<open>
  C3, amended. No seed is configured anywhere; the Monte-Carlo sampling draws from the
  process-wide generator. On the SARIMAX path of the forecast-power script and in the
  multivariate script, two runs with identical inputs whose generators deliver the same
  first \<open>forecast_days * 2000\<close> variates give the same forecast path, the same per-day
  and pooled exceedance probabilities and the same risk scores; the forecast path and
  the risk scores are the same whatever the two generators deliver.
\<close>

theorem runs_determined_by_draws:
  assumes "\<forall>k < forecast_days * Nsim. z1 k = z2 k"
  shows "(\<forall>res. fit_sarimax L (map snd df) = Inr res \<longrightarrow>
          main_after_prepare_compact L z1 df sample df_prec override today forecast_days T
            = main_after_prepare_compact L z2 df sample df_prec override today forecast_days T
          \<and> map_sum id fst
              (main_after_prepare_compact L za df sample df_prec override today forecast_days T)
            = map_sum id fst
              (main_after_prepare_compact L zb df sample df_prec override today forecast_days T)
          \<and> map_sum id (snd \<circ> snd)
              (main_after_prepare_compact L za df sample df_prec override today forecast_days T)
            = map_sum id (snd \<circ> snd)
              (main_after_prepare_compact L zb df sample df_prec override today forecast_days T))
     \<and> forecast_multivariate_main train z1 csv vars forecast_days lags T
         = forecast_multivariate_main train z2 csv vars forecast_days lags T
     \<and> map_sum id fst (forecast_multivariate_main train za csv vars forecast_days lags T)
         = map_sum id fst (forecast_multivariate_main train zb csv vars forecast_days lags T)
     \<and> (length df_fore = forecast_days
          \<longrightarrow> main_exceedance z1 df_fore T = main_exceedance z2 df_fore T)
     \<and> (length mv_fore = forecast_days
          \<longrightarrow> mv_exceedance z1 mv_fore residuals T = mv_exceedance z2 mv_fore residuals T)"
proof -
  have sar: "\<forall>res. fit_sarimax L (map snd df) = Inr res \<longrightarrow>
          main_after_prepare_compact L z1 df sample df_prec override today forecast_days T
            = main_after_prepare_compact L z2 df sample df_prec override today forecast_days T
          \<and> map_sum id fst
              (main_after_prepare_compact L za df sample df_prec override today forecast_days T)
            = map_sum id fst
              (main_after_prepare_compact L zb df sample df_prec override today forecast_days T)
          \<and> map_sum id (snd \<circ> snd)
              (main_after_prepare_compact L za df sample df_prec override today forecast_days T)
            = map_sum id (snd \<circ> snd)
              (main_after_prepare_compact L zb df sample df_prec override today forecast_days T)"
  proof (intro allI impI)
    fix res assume fit: "fit_sarimax L (map snd df) = Inr res"
    let ?p = "zip (date_range (forecast_start_of override today) forecast_days)
                (map res [0..<forecast_days])"
    have len: "length ?p = forecast_days" by (simp add: length_date_range)
    have same: "main_exceedance z1 ?p T = main_exceedance z2 ?p T"
      using assms len by (intro main_exceedance_cong) simp
    have a: "main_after_prepare_compact L z1 df sample df_prec override today forecast_days T
            = main_after_prepare_compact L z2 df sample df_prec override today forecast_days T"
      by (simp add: main_after_prepare_sarimax [OF fit] Let_def same)
    have b: "map_sum id fst
              (main_after_prepare_compact L za df sample df_prec override today forecast_days T)
            = map_sum id fst
              (main_after_prepare_compact L zb df sample df_prec override today forecast_days T)"
      using main_exceedance_raises [of ?p za ?p T zb]
      by (simp add: main_after_prepare_sarimax [OF fit] Let_def map_sum_case_sum)
    have c: "map_sum id (snd \<circ> snd)
              (main_after_prepare_compact L za df sample df_prec override today forecast_days T)
            = map_sum id (snd \<circ> snd)
              (main_after_prepare_compact L zb df sample df_prec override today forecast_days T)"
      using main_exceedance_raises [of "main_compact sample df_prec ?p" za ?p T zb]
      by (simp add: main_after_prepare_sarimax [OF fit] Let_def map_sum_case_sum)
    from a b c show "main_after_prepare_compact L z1 df sample df_prec override today forecast_days T
            = main_after_prepare_compact L z2 df sample df_prec override today forecast_days T
          \<and> map_sum id fst
              (main_after_prepare_compact L za df sample df_prec override today forecast_days T)
            = map_sum id fst
              (main_after_prepare_compact L zb df sample df_prec override today forecast_days T)
          \<and> map_sum id (snd \<circ> snd)
              (main_after_prepare_compact L za df sample df_prec override today forecast_days T)
            = map_sum id (snd \<circ> snd)
              (main_after_prepare_compact L zb df sample df_prec override today forecast_days T)"
      by blast
  qed
  have agree: "\<forall>k < forecast_days * 2000. z1 k = z2 k"
    using assms by (simp add: Nsim_def)
  have mv: "forecast_multivariate_main train z1 csv vars forecast_days lags T
         = forecast_multivariate_main train z2 csv vars forecast_days lags T"
    by (rule forecast_multivariate_main_cong [OF agree])
  have ex1: "length df_fore = forecast_days
          \<longrightarrow> main_exceedance z1 df_fore T = main_exceedance z2 df_fore T"
    using assms main_exceedance_cong [of df_fore z1 z2 T] by blast
  have ex2: "length mv_fore = forecast_days
          \<longrightarrow> mv_exceedance z1 mv_fore residuals T = mv_exceedance z2 mv_fore residuals T"
    using agree mv_exceedance_cong [of mv_fore z1 z2 residuals T] by blast
  from sar mv forecast_multivariate_main_path [of train za csv vars forecast_days lags T zb] ex1 ex2
  show ?thesis by blast
qed

theorem runs_determined_by_draws_witness:
  "main_after_prepare_compact
       \<lparr>SARIMAX = Some (\<lambda>s order seasonal. Inr (\<lambda>k. \<lparr>mean = 0, lower = - 1.96, upper = 1.96\<rparr>)),
        pm = None, Prophet = None\<rparr>
       (\<lambda>k. if k < 2000 then 0 else 1) [(0, 1), (1, 2)] (\<lambda>t. Inr [2, 4]) (Some [2, 4]) None 9 1 (1 / 2)
     = main_after_prepare_compact
       \<lparr>SARIMAX = Some (\<lambda>s order seasonal. Inr (\<lambda>k. \<lparr>mean = 0, lower = - 1.96, upper = 1.96\<rparr>)),
        pm = None, Prophet = None\<rparr>
       (\<lambda>k. 0) [(0, 1), (1, 2)] (\<lambda>t. Inr [2, 4]) (Some [2, 4]) None 9 1 (1 / 2)
   \<and> map_sum id fst (main_after_prepare_compact
       \<lparr>SARIMAX = Some (\<lambda>s order seasonal. Inr (\<lambda>k. \<lparr>mean = 0, lower = - 1.96, upper = 1.96\<rparr>)),
        pm = None, Prophet = None\<rparr>
       (\<lambda>k. 0) [(0, 1), (1, 2)] (\<lambda>t. Inr [2, 4]) (Some [2, 4]) None 9 1 (1 / 2))
     = Inr [(10, \<lparr>mean = 0, lower = - 1.96, upper = 1.96\<rparr>)]
   \<and> mv_exceedance (\<lambda>k. if k < 2000 then 0 else 1) [(Some 0, 0)] [] (1 / 2)
      = mv_exceedance (\<lambda>k. 0) [(Some 0, 0)] [] (1 / 2)"
  using runs_determined_by_draws [where forecast_days = 1
      and ?z1.0 = "\<lambda>k. if k < 2000 then 0 else 1" and ?z2.0 = "\<lambda>k. 0"
      and za = "\<lambda>k. 0" and zb = "\<lambda>k. 0"
      and L = "\<lparr>SARIMAX = Some (\<lambda>s order seasonal. Inr (\<lambda>k. \<lparr>mean = 0, lower = - 1.96, upper = 1.96\<rparr>)),
                pm = None, Prophet = None\<rparr>"
      and df = "[(0, 1), (1, 2)]" and sample = "\<lambda>t. Inr [2, 4]" and df_prec = "Some [2, 4]"
      and override = None and today = 9 and T = "1 / 2"
      and mv_fore = "[(Some 0, 0)]" and residuals = "[]"]
  by (simp add: Nsim_def fit_sarimax_def select_order_def main_after_prepare_compact_def
      main_after_prepare_def main_forecast_def forecast_sarimax_def forecast_start_of_def
      date_range_def main_exceedance_def row_std_def random_normal_const exceed_def
      bool_mean_def Let_def upt_conv_Cons)

section \<open>Sentinel values\<close>

text \<open>The forecast-power fetch never delivers a number at or below the sentinel bound.\<close>

lemma json_value_no_sentinel: "json_value v = Num x \<Longrightarrow> - 900 < x"
  by (auto simp: json_value_def split: jval.splits if_splits)

lemma csv_value_no_sentinel: "csv_value c = Some x \<Longrightarrow> - 900 < x"
  by (auto simp: csv_value_def split: option.splits if_splits)

lemma fetch_power_point_no_sentinel:
  assumes "fetch_power_point r = Inr fetched" and "(d, Num x) \<in> set fetched"
  shows "- 900 < x"
proof (cases r)
  case (JsonBlock items)
  then have "(d, Num x) \<in> set (json_rows items)"
    using assms by (auto simp: fetch_power_point_def Let_def split: if_splits)
  then obtain v where "json_value v = Num x"
    by (auto simp: json_rows_def split: option.splits)
  then show ?thesis by (rule json_value_no_sentinel)
next
  case JsonOther
  then show ?thesis using assms by (simp add: fetch_power_point_def)
next
  case (CsvTable tbl)
  then have "(d, Num x) \<in> set (csv_rows tbl)"
    using assms by (auto simp: fetch_power_point_def)
  then obtain c where "csv_value c = Some x"
    by (auto simp: csv_rows_def split: option.splits)
  then show ?thesis by (rule csv_value_no_sentinel)
qed

text \<open>
  C4 does not hold of the multivariate script. \<^verbatim>\<open>fetch_power_point\<close> replaces a value
  of -999 by NaN on the JSON path and drops its row on the CSV path, but
  \<^verbatim>\<open>fetch_power_csv\<close> copies it as it is, and the reindexing and filling of
  \<^verbatim>\<open>main\<close> leave it in the frame that is handed to the training: for the table with
  \<open>T2M = 25\<close> on day 0 and \<open>T2M = -999\<close> on day 1 the loaded frame still holds -999.
\<close>

theorem multivariate_fetch_keeps_sentinel:
  "fetch_power_point (JsonBlock [(Some 0, JNum 25), (Some 1, JNum (- 999))])
      = Inr [(0, Num 25), (1, NaN)]
   \<and> fetch_power_point (CsvTable [(0, CNum 25), (1, CNum (- 999))]) = Inr [(0, Num 25)]
   \<and> fetch_power_csv
        \<lparr>columns = [''T2M''], rows = [(0, [(''T2M'', Some 25)]), (1, [(''T2M'', Some (- 999))])]\<rparr>
        [''T2M'']
      = \<lparr>columns = [''T2M''], rows = [(0, [(''T2M'', Some 25)]), (1, [(''T2M'', Some (- 999))])]\<rparr>
   \<and> main_load
        \<lparr>columns = [''T2M''], rows = [(0, [(''T2M'', Some 25)]), (1, [(''T2M'', Some (- 999))])]\<rparr>
        [''T2M'']
      = Inr \<lparr>columns = [''T2M''], rows = [(0, [(''T2M'', Some 25)]), (1, [(''T2M'', Some (- 999))])]\<rparr>
   \<and> col_values
        \<lparr>columns = [''T2M''], rows = [(0, [(''T2M'', Some 25)]), (1, [(''T2M'', Some (- 999))])]\<rparr>
        ''T2M'' = [Some 25, Some (- 999)]"
  by (simp add: fetch_power_point_def json_rows_def json_value_def csv_rows_def csv_value_def
      to_numeric_def main_load_def fetch_power_csv_def rename_target_def reindex_daily_def
      fillna_def find_column_def str_upper_def upper_char_def startswith_def cell_of_def
      col_values_def bfill_def date_range_def Let_def upt_conv_Cons)

end
